theory Spec2Isabelle
  imports Complex_Main "HOL-Library.Sublist"
begin

section \<open>The overlay's panels\<close>

text \<open>
  \<^verbatim>\<open>type Panel = { key: string; title: string; collectionHandle: string }\<close> and the
  constant \<^verbatim>\<open>PANELS\<close> of the experience component (fields \<open>key\<close> and \<open>title\<close> carry a
  prefix here).
\<close>

record Panel =
  panel_key :: string
  panel_title :: string
  collectionHandle :: string

definition PANELS :: "Panel list" where
  "PANELS =
     [\<lparr>panel_key = ''hoodies'', panel_title = ''HOODIES'', collectionHandle = ''hoodies-1''\<rparr>,
      \<lparr>panel_key = ''shirts'', panel_title = ''SHIRTS'', collectionHandle = ''shirts''\<rparr>]"

section \<open>Crossfade panel selection\<close>

text \<open>
  The render body of \<^verbatim>\<open>CardsOverlay\<close>:
  \<^verbatim>\<open>
  // Crossfade panels (never blank)
  const pos = scroll.offset * total; // 0..total
  const i = Math.floor(pos);
  const frac = pos - i;
  PANELS.map((p, idx) => {
    const isCurrent = idx === i;
    const isNext = idx === i + 1;
    if (!isCurrent && !isNext) return null;
    const opacity = isCurrent ? 1 - frac : frac;
    const y = (1 - opacity) * 18;
    return <div key={p.key} style={{ opacity, transform: ... y ... }}> ... </div>
  })
  \<close>
  A panel for which the callback returns \<^verbatim>\<open>null\<close> is not rendered. The model returns the
  rendered panels in order, each with its index, opacity and vertical offset; \<open>fraction\<close>
  is the source's \<^verbatim>\<open>frac\<close>. The scroll offset is a real number (the source's doubles,
  without rounding); the panel list is a parameter, \<open>PANELS\<close> being the source's value.
\<close>

record RenderedPanel =
  r_panel :: Panel
  r_idx :: nat
  r_opacity :: real
  r_y :: real

definition renderPanel :: "int \<Rightarrow> real \<Rightarrow> Panel \<times> nat \<Rightarrow> RenderedPanel option" where
  "renderPanel i fraction = (\<lambda>(p, idx).
     let isCurrent = (int idx = i);
         isNext = (int idx = i + 1)
     in if \<not> isCurrent \<and> \<not> isNext then None
        else let opacity = (if isCurrent then 1 - fraction else fraction);
                 y = (1 - opacity) * 18
             in Some \<lparr>r_panel = p, r_idx = idx, r_opacity = opacity, r_y = y\<rparr>)"

definition crossfade :: "Panel list \<Rightarrow> real \<Rightarrow> RenderedPanel list" where
  "crossfade panels offset =
     (let total = length panels;
          pos = offset * real total;
          i = \<lfloor>pos\<rfloor>;
          fraction = pos - of_int i
      in List.map_filter (renderPanel i fraction) (zip panels [0..<total]))"

section \<open>JavaScript values\<close>

text \<open>
  A parsed JSON value. \<open>JObj\<close> lists the own properties of an object in the order the
  engine enumerates them, with distinct keys. The engine's number type is the parameter
  \<open>'n\<close>. A value that may be \<^verbatim>\<open>undefined\<close> is an \<open>option\<close>, \<open>None\<close> being
  \<^verbatim>\<open>undefined\<close>. Strings are lists of 8-bit characters, so the model covers strings
  whose code units are below 256.
\<close>

datatype 'n json =
    JNull
  | JBool bool
  | JNum 'n
  | JStr string
  | JArr "'n json list"
  | JObj "(string \<times> 'n json) list"

text \<open>Thrown values: the three error classes that occur, each with its message.\<close>

datatype js_error = Error string | TypeError string | SyntaxError string

fun message :: "js_error \<Rightarrow> string" where
  "message (Error m) = m"
| "message (TypeError m) = m"
| "message (SyntaxError m) = m"

text \<open>
  The operations of the engine on numbers and on letter case are parameters of the model:
  \<^verbatim>\<open>ToBoolean\<close> and \<^verbatim>\<open>ToString\<close> on a number, the text \<^verbatim>\<open>JSON.stringify\<close> gives
  a number, \<^verbatim>\<open>parseFloat\<close>, \<^verbatim>\<open>Number.prototype.toLocaleString\<close> (which depends on the
  host's locale) and \<^verbatim>\<open>String.prototype.toUpperCase\<close>.
\<close>

record 'n engine =
  num_truthy :: "'n \<Rightarrow> bool"
  num_to_string :: "'n \<Rightarrow> string"
  num_to_json :: "'n \<Rightarrow> string"
  parseFloat :: "string \<Rightarrow> 'n"
  toLocaleString :: "'n \<Rightarrow> string"
  toUpperCase :: "string \<Rightarrow> string"

text \<open>\<^verbatim>\<open>ToBoolean\<close>, as used by \<^verbatim>\<open>!x\<close>, \<^verbatim>\<open>x || y\<close> and \<^verbatim>\<open>if (x)\<close>.\<close>

fun truthy :: "'n engine \<Rightarrow> 'n json \<Rightarrow> bool" where
  "truthy E JNull = False"
| "truthy E (JBool b) = b"
| "truthy E (JNum n) = num_truthy E n"
| "truthy E (JStr s) = (s \<noteq> [])"
| "truthy E (JArr xs) = True"
| "truthy E (JObj kvs) = True"

fun truthy_opt :: "'n engine \<Rightarrow> 'n json option \<Rightarrow> bool" where
  "truthy_opt E None = False"
| "truthy_opt E (Some v) = truthy E v"

text \<open>\<^verbatim>\<open>a || b\<close> and the same with a constant right operand.\<close>

definition js_or :: "'n engine \<Rightarrow> 'n json option \<Rightarrow> 'n json option \<Rightarrow> 'n json option" where
  "js_or E a b = (if truthy_opt E a then a else b)"

fun or_default :: "'n engine \<Rightarrow> 'n json option \<Rightarrow> 'n json \<Rightarrow> 'n json" where
  "or_default E None d = d"
| "or_default E (Some v) d = (if truthy E v then v else d)"

text \<open>
  \<^verbatim>\<open>ToString\<close>, as applied by template literals, by \<^verbatim>\<open>new Error(x)\<close> and by
  \<^verbatim>\<open>parseFloat(x)\<close>: an array joins its elements with commas, \<^verbatim>\<open>null\<close> elements giving
  the empty string, and an object gives a fixed text.
\<close>

fun js_join :: "string \<Rightarrow> string list \<Rightarrow> string" where
  "js_join sep [] = []"
| "js_join sep [x] = x"
| "js_join sep (x # y # ys) = x @ sep @ js_join sep (y # ys)"

fun toString :: "'n engine \<Rightarrow> 'n json \<Rightarrow> string" where
  "toString E JNull = ''null''"
| "toString E (JBool b) = (if b then ''true'' else ''false'')"
| "toString E (JNum n) = num_to_string E n"
| "toString E (JStr s) = s"
| "toString E (JArr xs) =
     js_join '','' (map (\<lambda>x. if x = JNull then [] else toString E x) xs)"
| "toString E (JObj kvs) = ''[object Object]''"

fun toString_opt :: "'n engine \<Rightarrow> 'n json option \<Rightarrow> string" where
  "toString_opt E None = ''undefined''"
| "toString_opt E (Some v) = toString E v"

text \<open>The decimal text of a natural number, as a template literal prints an HTTP status.\<close>

definition digit_char :: "nat \<Rightarrow> char" where
  "digit_char n = ''0123456789'' ! (n mod 10)"

fun decimal :: "nat \<Rightarrow> string" where
  "decimal n = (if n < 10 then [digit_char n] else decimal (n div 10) @ [digit_char n])"

subsection \<open>JSON.stringify\<close>

text \<open>
  \<^verbatim>\<open>JSON.stringify(v)\<close> and \<^verbatim>\<open>JSON.stringify(v, null, 2)\<close>, following the
  language specification: \<open>quote\<close> is QuoteJSONString (the double quote and the backslash
  are escaped with a backslash, control characters by their short escape or by a
  four-digit hexadecimal escape), \<open>wrap\<close> lays out the members of an array or object,
  on one line when the gap is empty and one member per line, indented, otherwise. The
  gap is the empty string or two spaces; \<open>ind\<close> is the indentation reached so far.
\<close>

definition hex_digit :: "nat \<Rightarrow> char" where
  "hex_digit n = ''0123456789abcdef'' ! (n mod 16)"

definition quote_char :: "char \<Rightarrow> string" where
  "quote_char c =
     (if c = CHR 0x08 then [CHR 0x5C, CHR ''b'']
      else if c = CHR 0x09 then [CHR 0x5C, CHR ''t'']
      else if c = CHR 0x0A then [CHR 0x5C, CHR ''n'']
      else if c = CHR 0x0C then [CHR 0x5C, CHR ''f'']
      else if c = CHR 0x0D then [CHR 0x5C, CHR ''r'']
      else if c = CHR 0x22 then [CHR 0x5C, CHR 0x22]
      else if c = CHR 0x5C then [CHR 0x5C, CHR 0x5C]
      else if of_char c < (32::nat)
        then [CHR 0x5C, CHR ''u'', CHR ''0'', CHR ''0'',
              hex_digit (of_char c div 16), hex_digit (of_char c)]
      else [c])"

definition quote :: "string \<Rightarrow> string" where
  "quote s = [CHR 0x22] @ concat (map quote_char s) @ [CHR 0x22]"

definition wrap :: "string \<Rightarrow> string \<Rightarrow> string \<Rightarrow> string \<Rightarrow> string list \<Rightarrow> string" where
  "wrap l r gap ind parts =
     (if parts = [] then l @ r
      else if gap = [] then l @ js_join '','' parts @ r
      else l @ [CHR 0x0A] @ (ind @ gap)
             @ js_join ('','' @ [CHR 0x0A] @ (ind @ gap)) parts
             @ [CHR 0x0A] @ ind @ r)"

fun stringify :: "'n engine \<Rightarrow> string \<Rightarrow> string \<Rightarrow> 'n json \<Rightarrow> string" where
  "stringify E gap ind JNull = ''null''"
| "stringify E gap ind (JBool b) = (if b then ''true'' else ''false'')"
| "stringify E gap ind (JNum n) = num_to_json E n"
| "stringify E gap ind (JStr s) = quote s"
| "stringify E gap ind (JArr xs) =
     wrap ''['' '']'' gap ind (map (stringify E gap (ind @ gap)) xs)"
| "stringify E gap ind (JObj kvs) =
     wrap ''{'' ''}'' gap ind
       (map (\<lambda>(k, v). quote k @ '':'' @ (if gap = [] then [] else '' '')
                        @ stringify E gap (ind @ gap) v) kvs)"

text \<open>
  \<^verbatim>\<open>JSON.stringify(undefined, null, 2)\<close> is \<^verbatim>\<open>undefined\<close>, which a template literal
  prints as the word.
\<close>

fun stringify_opt :: "'n engine \<Rightarrow> string \<Rightarrow> 'n json option \<Rightarrow> string" where
  "stringify_opt E gap None = ''undefined''"
| "stringify_opt E gap (Some v) = stringify E gap [] v"

subsection \<open>Property access\<close>

text \<open>
  \<open>getProp v k\<close> is \<^verbatim>\<open>v.k\<close> for a value that is neither \<^verbatim>\<open>null\<close> nor
  \<^verbatim>\<open>undefined\<close>, for the property names the program reads (none of them is an index,
  \<^verbatim>\<open>length\<close> or a name on a built-in prototype): only an object has such a property.
  \<open>getIndex0 v\<close> is \<^verbatim>\<open>v[0]\<close>: the first element of an array, the first code unit of a
  string, the property named 0 of an object.

  \<open>optProp\<close> and \<open>optIndex0\<close> are the optional chains \<^verbatim>\<open>v?.k\<close> and \<^verbatim>\<open>v?.[0]\<close>;
  \<open>readProp\<close> is the plain \<^verbatim>\<open>v.k\<close>, which throws a TypeError on \<^verbatim>\<open>null\<close> and
  \<^verbatim>\<open>undefined\<close>. The message texts of the TypeErrors follow V8's wording for a property
  read; they differ between engines, and no statement below depends on them.
\<close>

fun getProp :: "'n json \<Rightarrow> string \<Rightarrow> 'n json option" where
  "getProp (JObj kvs) k = map_of kvs k"
| "getProp v k = None"

fun getIndex0 :: "'n json \<Rightarrow> 'n json option" where
  "getIndex0 (JArr xs) = (case xs of [] \<Rightarrow> None | x # _ \<Rightarrow> Some x)"
| "getIndex0 (JStr s) = (case s of [] \<Rightarrow> None | c # _ \<Rightarrow> Some (JStr [c]))"
| "getIndex0 (JObj kvs) = map_of kvs ''0''"
| "getIndex0 v = None"

fun optProp :: "'n json option \<Rightarrow> string \<Rightarrow> 'n json option" where
  "optProp None k = None"
| "optProp (Some JNull) k = None"
| "optProp (Some v) k = getProp v k"

fun optIndex0 :: "'n json option \<Rightarrow> 'n json option" where
  "optIndex0 None = None"
| "optIndex0 (Some JNull) = None"
| "optIndex0 (Some v) = getIndex0 v"

fun readProp :: "'n json option \<Rightarrow> string \<Rightarrow> js_error + 'n json option" where
  "readProp None k =
     Inl (TypeError (''Cannot read properties of undefined (reading ''
                     @ [CHR 0x27] @ k @ [CHR 0x27] @ '')''))"
| "readProp (Some JNull) k =
     Inl (TypeError (''Cannot read properties of null (reading ''
                     @ [CHR 0x27] @ k @ [CHR 0x27] @ '')''))"
| "readProp (Some v) k = Inr (getProp v k)"

text \<open>Sequencing of computations that may throw: the first error ends the computation.\<close>

fun andThen :: "'e + 'a \<Rightarrow> ('a \<Rightarrow> 'e + 'b) \<Rightarrow> 'e + 'b" where
  "andThen (Inl e) f = Inl e"
| "andThen (Inr x) f = f x"

fun map_result :: "('a \<Rightarrow> 'e + 'b) \<Rightarrow> 'a list \<Rightarrow> 'e + 'b list" where
  "map_result f [] = Inr []"
| "map_result f (x # xs) =
     andThen (f x) (\<lambda>y. andThen (map_result f xs) (\<lambda>ys. Inr (y # ys)))"

section \<open>The storefront query clients\<close>

text \<open>
  \<^verbatim>\<open>SHOPIFY_CONFIG\<close> is a parameter of the model. A request records what is passed to
  \<^verbatim>\<open>fetch\<close>. A response has its status and the outcome of \<^verbatim>\<open>res.json()\<close>: the parsed
  body, or the error the parse rejects with. \<^verbatim>\<open>res.ok\<close> holds for the statuses 200 to 299.

  The network is the parameter \<open>fetch\<close>, from the request to the error \<^verbatim>\<open>fetch\<close> rejects
  with or the response. Each client returns its result together with the list of requests
  it issued.
\<close>

record Config =
  domain :: string
  storefrontAccessToken :: string
  apiVersion :: string

record Request =
  url :: string
  http_method :: string
  headers :: "(string \<times> string) list"
  body :: string

record 'n Response =
  status :: nat
  json_body :: "js_error + 'n json"

definition ok :: "'n Response \<Rightarrow> bool" where
  "ok res = (200 \<le> status res \<and> status res \<le> 299)"

text \<open>
  \<^verbatim>\<open>JSON.stringify({ query, variables })\<close>: a property whose value is \<^verbatim>\<open>undefined\<close> is left
  out.
\<close>

definition request_body :: "'n engine \<Rightarrow> string \<Rightarrow> 'n json option \<Rightarrow> string" where
  "request_body E query variables =
     stringify E [] []
       (JObj ((''query'', JStr query)
              # (case variables of None \<Rightarrow> [] | Some v \<Rightarrow> [(''variables'', v)])))"

definition post :: "Config \<Rightarrow> string \<Rightarrow> string \<Rightarrow> Request" where
  "post cfg endpoint payload =
     \<lparr>url = endpoint, http_method = ''POST'',
      headers = [(''Content-Type'', ''application/json''),
                 (''X-Shopify-Storefront-Access-Token'', storefrontAccessToken cfg)],
      body = payload\<rparr>"

text \<open>
  \<^verbatim>\<open>
  async function storefrontQuery<T>(query: string, variables?: Record<string, any>): Promise<T> {
    if (!STORE_DOMAIN || !STOREFRONT_TOKEN) {
      throw new Error("Missing VITE_SHOPIFY_STORE_DOMAIN or VITE_SHOPIFY_STOREFRONT_TOKEN");
    }
    const endpoint = `https://${STORE_DOMAIN}/api/${STOREFRONT_VERSION}/graphql.json`;
    const res = await fetch(endpoint, { method: "POST", headers: { ... },
      body: JSON.stringify({ query, variables }) });
    const json = await res.json();
    if (!res.ok || json.errors) {
      const msg = JSON.stringify(json.errors || json, null, 2);
      throw new Error(`Storefront API error: ${msg}`);
    }
    return json.data as T;
  }
  \<close>
  \<^verbatim>\<open>json.errors\<close> in the condition is read only when \<^verbatim>\<open>res.ok\<close> holds.
\<close>

definition storefrontQuery ::
  "'n engine \<Rightarrow> Config \<Rightarrow> (Request \<Rightarrow> js_error + 'n Response) \<Rightarrow> string \<Rightarrow> 'n json option
     \<Rightarrow> (js_error + 'n json option) \<times> Request list" where
  "storefrontQuery E cfg fetch query variables =
     (if domain cfg = [] \<or> storefrontAccessToken cfg = []
      then (Inl (Error ''Missing VITE_SHOPIFY_STORE_DOMAIN or VITE_SHOPIFY_STOREFRONT_TOKEN''), [])
      else
        let endpoint = ''https://'' @ domain cfg @ ''/api/'' @ apiVersion cfg @ ''/graphql.json'';
            req = post cfg endpoint (request_body E query variables)
        in (andThen (fetch req) (\<lambda>res.
            andThen (json_body res) (\<lambda>json.
            andThen (if \<not> ok res then Inr True
                     else andThen (readProp (Some json) ''errors'')
                            (\<lambda>errs. Inr (truthy_opt E errs))) (\<lambda>failed.
              if failed
              then andThen (readProp (Some json) ''errors'') (\<lambda>errs.
                     Inl (Error (''Storefront API error: ''
                                 @ stringify_opt E ''  '' (js_or E errs (Some json)))))
              else readProp (Some json) ''data''))),
            [req]))"

text \<open>
  \<^verbatim>\<open>buildEndpoint\<close> removes a leading \<^verbatim>\<open>http://\<close> or \<^verbatim>\<open>https://\<close> and all trailing
  slashes from the configured domain (two regular-expression replacements), and throws
  when the result or the token is empty.
\<close>

definition strip_scheme :: "string \<Rightarrow> string" where
  "strip_scheme s =
     (if prefix ''http://'' s then drop 7 s
      else if prefix ''https://'' s then drop 8 s
      else s)"

definition strip_trailing_slashes :: "string \<Rightarrow> string" where
  "strip_trailing_slashes s = rev (dropWhile (\<lambda>c. c = CHR ''/'') (rev s))"

definition buildEndpoint :: "Config \<Rightarrow> js_error + string" where
  "buildEndpoint cfg =
     (let domain = strip_trailing_slashes (strip_scheme (domain cfg))
      in if domain = [] \<or> storefrontAccessToken cfg = []
         then Inl (Error ''Missing Shopify configuration (domain or token)'')
         else Inr (''https://'' @ domain @ ''/api/'' @ apiVersion cfg @ ''/graphql.json''))"

text \<open>
  \<^verbatim>\<open>
  export async function shopifyFetch(query: string, variables: Record<string, any> = {}) {
    const endpoint = buildEndpoint();
    const response = await fetch(endpoint, { method: 'POST', headers: { ... },
      body: JSON.stringify({ query, variables }) });
    let json: any;
    try {
      json = await response.json();
    } catch (error) {
      throw new Error('Invalid response from Shopify');
    }
    if (!response.ok) {
      throw new Error(json?.errors?.[0]?.message || `Shopify API error (${response.status})`);
    }
    if (json.errors) {
      throw new Error(json.errors[0]?.message || 'Shopify API error');
    }
    return json.data;
  }
  \<close>
\<close>

definition shopifyFetch ::
  "'n engine \<Rightarrow> Config \<Rightarrow> (Request \<Rightarrow> js_error + 'n Response) \<Rightarrow> string \<Rightarrow> 'n json
     \<Rightarrow> (js_error + 'n json option) \<times> Request list" where
  "shopifyFetch E cfg fetch query variables =
     (case buildEndpoint cfg of
        Inl e \<Rightarrow> (Inl e, [])
      | Inr endpoint \<Rightarrow>
         let req = post cfg endpoint (request_body E query (Some variables))
         in (andThen (fetch req) (\<lambda>response.
             andThen (case json_body response of
                        Inl error \<Rightarrow> Inl (Error ''Invalid response from Shopify'')
                      | Inr json \<Rightarrow> Inr json) (\<lambda>json.
               if \<not> ok response
               then (let m = optProp (optIndex0 (optProp (Some json) ''errors'')) ''message''
                     in Inl (Error (if truthy_opt E m then toString_opt E m
                                    else ''Shopify API error ('' @ decimal (status response) @ '')'')))
               else andThen (readProp (Some json) ''errors'') (\<lambda>errors.
                 if truthy_opt E errors
                 then (let m = optProp (optIndex0 errors) ''message''
                       in Inl (Error (if truthy_opt E m then toString_opt E m
                                      else ''Shopify API error'')))
                 else readProp (Some json) ''data''))),
             [req]))"

section \<open>Product shaping\<close>

subsection \<open>The single-product path\<close>

text \<open>
  The view-model of the library module (its fields \<open>id\<close>, \<open>price\<close>, \<open>imageUrl\<close> and
  \<open>handle\<close> carry a prefix here, since the overlay has a type of the same name).
  \<^verbatim>\<open>
  export function formatShopifyProduct(node: any): ShopifyProduct {
    const price = node.variants?.edges?.[0]?.node?.price?.amount || '0';
    const currency = node.variants?.edges?.[0]?.node?.price?.currencyCode || 'USD';
    const images = node.images?.edges?.map((edge: any) => edge?.node?.url).filter(Boolean) || [];
    const image = images[0] || '';
    const variantId = node.variants?.edges?.[0]?.node?.id;
    return {
      id: node.id,
      label: node.title.toUpperCase(),
      price: `$${parseFloat(price).toLocaleString()}`, // Simplified formatting
      priceVal: parseFloat(price),
      imageUrl: image,
      variantId: variantId,
      handle: node.handle,
      description: node.description,
      images,
      currencyCode: currency
    };
  }
  \<close>
  \<open>edge_urls\<close> is the \<^verbatim>\<open>images\<close> expression: the optional chain ends in \<^verbatim>\<open>undefined\<close> when
  the edge list is \<^verbatim>\<open>undefined\<close> or \<^verbatim>\<open>null\<close>, and calling \<^verbatim>\<open>map\<close> on a value that is not
  an array throws. \<open>upper_title\<close> is \<^verbatim>\<open>node.title.toUpperCase()\<close>, which throws unless the
  title is a string.
\<close>

record 'n ShopifyProduct =
  sp_id :: "'n json option"
  label :: string
  sp_price :: string
  priceVal :: 'n
  sp_imageUrl :: "'n json"
  variantId :: "'n json option"
  sp_handle :: "'n json option"
  description :: "'n json option"
  images :: "'n json list"
  currencyCode :: "'n json"

fun edge_urls :: "'n engine \<Rightarrow> 'n json option \<Rightarrow> js_error + 'n json list" where
  "edge_urls E None = Inr []"
| "edge_urls E (Some JNull) = Inr []"
| "edge_urls E (Some (JArr edges)) =
     Inr (filter (truthy E)
            (List.map_filter (\<lambda>edge. optProp (optProp (Some edge) ''node'') ''url'') edges))"
| "edge_urls E (Some v) =
     Inl (TypeError ''node.images?.edges?.map is not a function'')"

fun upper_title :: "'n engine \<Rightarrow> 'n json option \<Rightarrow> js_error + string" where
  "upper_title E None =
     Inl (TypeError (''Cannot read properties of undefined (reading ''
                     @ [CHR 0x27] @ ''toUpperCase'' @ [CHR 0x27] @ '')''))"
| "upper_title E (Some JNull) =
     Inl (TypeError (''Cannot read properties of null (reading ''
                     @ [CHR 0x27] @ ''toUpperCase'' @ [CHR 0x27] @ '')''))"
| "upper_title E (Some (JStr s)) = Inr (toUpperCase E s)"
| "upper_title E (Some v) = Inl (TypeError ''node.title.toUpperCase is not a function'')"

definition formatShopifyProduct :: "'n engine \<Rightarrow> 'n json option \<Rightarrow> js_error + 'n ShopifyProduct" where
  "formatShopifyProduct E node =
     andThen (readProp node ''variants'') (\<lambda>variants.
       let first_variant = optProp (optIndex0 (optProp variants ''edges'')) ''node'';
           price = or_default E (optProp (optProp first_variant ''price'') ''amount'') (JStr ''0'');
           currency = or_default E (optProp (optProp first_variant ''price'') ''currencyCode'')
                        (JStr ''USD'')
       in andThen (edge_urls E (optProp (optProp node ''images'') ''edges'')) (\<lambda>images.
            let image = or_default E (case images of [] \<Rightarrow> None | u # _ \<Rightarrow> Some u) (JStr []);
                variantId = optProp first_variant ''id''
            in andThen (upper_title E (optProp node ''title'')) (\<lambda>label.
                 Inr \<lparr>sp_id = optProp node ''id'',
                      label = label,
                      sp_price = ''$'' @ toLocaleString E (parseFloat E (toString E price)),
                      priceVal = parseFloat E (toString E price),
                      sp_imageUrl = image,
                      variantId = variantId,
                      sp_handle = optProp node ''handle'',
                      description = optProp node ''description'',
                      images = images,
                      currencyCode = currency\<rparr>)))"

subsection \<open>The collection path\<close>

text \<open>
  The overlay's own view-model (its fields carry the prefix \<open>op_\<close>) and
  \<^verbatim>\<open>
  async function getCollectionProducts(handle: string, first = 12): Promise<ShopifyProduct[]> {
    const query = `...`;
    const data = await storefrontQuery<Resp>(query, { handle, first });
    const col = data.collectionByHandle;
    if (!col) return [];
    return col.products.edges.map(({ node }) => ({
      id: node.id,
      title: node.title,
      handle: node.handle,
      imageUrl: node.featuredImage?.url,
      price: `${node.priceRange.minVariantPrice.amount} ${node.priceRange.minVariantPrice.currencyCode}`,
    }));
  }
  \<close>
  \<open>shape_edge\<close> is the callback of \<^verbatim>\<open>map\<close>; \<open>map_edges\<close> is the call of \<^verbatim>\<open>map\<close> on the
  edge list, which throws when the list is not an array. \<open>COLLECTION_QUERY\<close> is the
  template literal \<^verbatim>\<open>query\<close>. The page size \<open>first\<close> is passed explicitly (the source
  defaults it to 12).
\<close>

record 'n OverlayProduct =
  op_id :: "'n json option"
  op_title :: "'n json option"
  op_handle :: "'n json option"
  op_imageUrl :: "'n json option"
  op_price :: string

definition shape_edge :: "'n engine \<Rightarrow> 'n json \<Rightarrow> js_error + 'n OverlayProduct" where
  "shape_edge E edge =
     andThen (readProp (Some edge) ''node'') (\<lambda>node.
     andThen (readProp node ''id'') (\<lambda>node_id.
     andThen (readProp node ''priceRange'') (\<lambda>priceRange.
     andThen (readProp priceRange ''minVariantPrice'') (\<lambda>minVariantPrice.
     andThen (readProp minVariantPrice ''amount'') (\<lambda>amount.
     andThen (readProp minVariantPrice ''currencyCode'') (\<lambda>currencyCode.
       Inr \<lparr>op_id = node_id,
            op_title = optProp node ''title'',
            op_handle = optProp node ''handle'',
            op_imageUrl = optProp (optProp node ''featuredImage'') ''url'',
            op_price = toString_opt E amount @ '' '' @ toString_opt E currencyCode\<rparr>))))))"

fun map_edges :: "'n engine \<Rightarrow> 'n json option \<Rightarrow> js_error + 'n OverlayProduct list" where
  "map_edges E None =
     Inl (TypeError (''Cannot read properties of undefined (reading ''
                     @ [CHR 0x27] @ ''map'' @ [CHR 0x27] @ '')''))"
| "map_edges E (Some JNull) =
     Inl (TypeError (''Cannot read properties of null (reading ''
                     @ [CHR 0x27] @ ''map'' @ [CHR 0x27] @ '')''))"
| "map_edges E (Some (JArr edges)) = map_result (shape_edge E) edges"
| "map_edges E (Some v) = Inl (TypeError ''col.products.edges.map is not a function'')"

definition COLLECTION_QUERY :: string where
  "COLLECTION_QUERY =
     (let nl = [CHR 0x0A] in
      [] @ nl
      @ ''    query CollectionProducts($handle: String!, $first: Int!) {'' @ nl
      @ ''      collectionByHandle(handle: $handle) {'' @ nl
      @ ''        title'' @ nl
      @ ''        products(first: $first) {'' @ nl
      @ ''          edges {'' @ nl
      @ ''            node {'' @ nl
      @ ''              id'' @ nl
      @ ''              title'' @ nl
      @ ''              handle'' @ nl
      @ ''              featuredImage {'' @ nl
      @ ''                url'' @ nl
      @ ''                altText'' @ nl
      @ ''              }'' @ nl
      @ ''              priceRange {'' @ nl
      @ ''                minVariantPrice {'' @ nl
      @ ''                  amount'' @ nl
      @ ''                  currencyCode'' @ nl
      @ ''                }'' @ nl
      @ ''              }'' @ nl
      @ ''            }'' @ nl
      @ ''          }'' @ nl
      @ ''        }'' @ nl
      @ ''      }'' @ nl
      @ ''    }'' @ nl
      @ ''  '')"

definition getCollectionProducts ::
  "'n engine \<Rightarrow> Config \<Rightarrow> (Request \<Rightarrow> js_error + 'n Response) \<Rightarrow> string \<Rightarrow> 'n
     \<Rightarrow> (js_error + 'n OverlayProduct list) \<times> Request list" where
  "getCollectionProducts E cfg fetch handle first =
     (let (result, requests) =
            storefrontQuery E cfg fetch COLLECTION_QUERY
              (Some (JObj [(''handle'', JStr handle), (''first'', JNum first)]))
      in (andThen result (\<lambda>data.
          andThen (readProp data ''collectionByHandle'') (\<lambda>col.
            if \<not> truthy_opt E col then Inr []
            else andThen (readProp col ''products'') (\<lambda>products.
                 andThen (readProp products ''edges'') (\<lambda>edges.
                   map_edges E edges)))),
          requests))"

section \<open>The overlay's fetch effect\<close>

text \<open>
  \<^verbatim>\<open>
  const [productsByHandle, setProductsByHandle] = useState<Record<string, ShopifyProduct[]>>({});
  const [error, setError] = useState<string | null>(null);
  useEffect(() => {
    let cancelled = false;
    (async () => {
      try {
        setError(null);
        const entries = await Promise.all(
          PANELS.map(async (p) =>
            [p.collectionHandle, await getCollectionProducts(p.collectionHandle, 12)] as const));
        if (cancelled) return;
        const map: Record<string, ShopifyProduct[]> = {};
        for (const [handle, products] of entries) map[handle] = products;
        setProductsByHandle(map);
      } catch (e: any) {
        if (!cancelled) setError(e?.message || "Failed to load products");
      }
    })();
    return () => { cancelled = true; };
  }, []);
  \<close>
  The effect is a state machine over the events of the single-threaded event loop. The
  state holds the two pieces of view state, the flag \<^verbatim>\<open>cancelled\<close>, the promise of each
  panel's query, the state of the promise of \<^verbatim>\<open>Promise.all\<close> together with the function
  body suspended at \<^verbatim>\<open>await\<close>, and the log of the calls of the two state setters.

  \<^item> \<open>Settle k outcome\<close>: the query of panel \<open>k\<close> settles. A promise settles once, so
    the event changes nothing when the query has settled before. \<^verbatim>\<open>Promise.all\<close> rejects
    with the first rejection and resolves, with the values in panel order, when every
    query has been fulfilled.
  \<^item> \<open>Resume\<close>: the body continues after \<^verbatim>\<open>await\<close>, in the \<^verbatim>\<open>try\<close> block when the batch
    resolved and in the \<^verbatim>\<open>catch\<close> block when it rejected.
  \<^item> \<open>Unmount\<close>: the cleanup function runs. It is the assignment \<^verbatim>\<open>cancelled = true\<close>,
    which cannot throw, so the step has no error branch.

  \<open>start_effect\<close> is the state after the synchronous part of the effect, from the view
  state before it. The assignment \<^verbatim>\<open>map[handle] = products\<close> is a map update (the handles
  are taken not to be names on the object prototype, which holds for \<open>PANELS\<close>).
\<close>

datatype 'a promise = Pending | Fulfilled 'a | Rejected js_error

datatype 'n batch =
    Waiting
  | Resolved "(string \<times> 'n OverlayProduct list) list"
  | Failed js_error
  | Done

datatype 'n update =
    SetError "string option"
  | SetProductsByHandle "string \<rightharpoonup> 'n OverlayProduct list"

record 'n Overlay =
  productsByHandle :: "string \<rightharpoonup> 'n OverlayProduct list"
  error :: "string option"
  cancelled :: bool
  queries :: "'n OverlayProduct list promise list"
  batch :: "'n batch"
  updates :: "'n update list"

datatype 'n event =
    Settle nat "js_error + 'n OverlayProduct list"
  | Resume
  | Unmount

fun settled :: "js_error + 'a \<Rightarrow> 'a promise" where
  "settled (Inl e) = Rejected e"
| "settled (Inr v) = Fulfilled v"

fun fulfilled_values :: "'a promise list \<Rightarrow> 'a list option" where
  "fulfilled_values [] = Some []"
| "fulfilled_values (Fulfilled v # ps) = map_option ((#) v) (fulfilled_values ps)"
| "fulfilled_values (p # ps) = None"

definition promise_all ::
  "Panel list \<Rightarrow> 'n OverlayProduct list promise list \<Rightarrow> js_error + 'n OverlayProduct list
     \<Rightarrow> 'n batch" where
  "promise_all panels qs outcome =
     (case outcome of
        Inl e \<Rightarrow> Failed e
      | Inr _ \<Rightarrow>
         (case fulfilled_values qs of
            None \<Rightarrow> Waiting
          | Some values \<Rightarrow> Resolved (zip (map collectionHandle panels) values)))"

definition start_effect ::
  "Panel list \<Rightarrow> (string \<rightharpoonup> 'n OverlayProduct list) \<Rightarrow> string option \<Rightarrow> 'n Overlay" where
  "start_effect panels products err =
     \<lparr>productsByHandle = products,
      error = None,
      cancelled = False,
      queries = map (\<lambda>p. Pending) panels,
      batch = (if panels = [] then Resolved [] else Waiting),
      updates = [SetError None]\<rparr>"

definition build_map ::
  "(string \<times> 'n OverlayProduct list) list \<Rightarrow> (string \<rightharpoonup> 'n OverlayProduct list)" where
  "build_map entries = foldl (\<lambda>m (handle, products). m(handle \<mapsto> products)) Map.empty entries"

definition error_text :: "js_error \<Rightarrow> string" where
  "error_text e = (if message e \<noteq> [] then message e else ''Failed to load products'')"

fun step :: "Panel list \<Rightarrow> 'n Overlay \<Rightarrow> 'n event \<Rightarrow> 'n Overlay" where
  "step panels s (Settle k outcome) =
     (if k < length (queries s) \<and> queries s ! k = Pending
      then let qs = (queries s)[k := settled outcome]
           in s\<lparr>queries := qs,
                batch := (if batch s = Waiting then promise_all panels qs outcome else batch s)\<rparr>
      else s)"
| "step panels s Resume =
     (case batch s of
        Resolved entries \<Rightarrow>
          if cancelled s then s\<lparr>batch := Done\<rparr>
          else s\<lparr>productsByHandle := build_map entries,
                 batch := Done,
                 updates := updates s @ [SetProductsByHandle (build_map entries)]\<rparr>
      | Failed e \<Rightarrow>
          if \<not> cancelled s
          then s\<lparr>error := Some (error_text e),
                 batch := Done,
                 updates := updates s @ [SetError (Some (error_text e))]\<rparr>
          else s\<lparr>batch := Done\<rparr>
      | _ \<Rightarrow> s)"
| "step panels s Unmount = s\<lparr>cancelled := True\<rparr>"

definition run :: "Panel list \<Rightarrow> 'n event list \<Rightarrow> 'n Overlay \<Rightarrow> 'n Overlay" where
  "run panels evs s = foldl (step panels) s evs"

section \<open>Notions used in the statements\<close>

text \<open>
  The price object the collection path reads from an edge, and the price string the
  specification describes: the amount, a space and the currency code.
\<close>

definition price_range_min :: "'n json \<Rightarrow> 'n json option" where
  "price_range_min edge =
     optProp (optProp (optProp (Some edge) ''node'') ''priceRange'') ''minVariantPrice''"

definition amount_and_currency :: "'n engine \<Rightarrow> 'n json \<Rightarrow> string" where
  "amount_and_currency E edge =
     toString_opt E (optProp (price_range_min edge) ''amount'') @ '' ''
       @ toString_opt E (optProp (price_range_min edge) ''currencyCode'')"

text \<open>The price field the single-product path reads: that of the first variant.\<close>

definition first_variant_price :: "'n json \<Rightarrow> string \<Rightarrow> 'n json option" where
  "first_variant_price node field =
     optProp (optProp (optProp (optIndex0 (optProp (optProp (Some node) ''variants'') ''edges''))
                ''node'') ''price'') field"

text \<open>
  A product node as the product queries return it: an object whose title is a string
  and whose image edge list, when present, is an array.
\<close>

fun array_or_absent :: "'n json option \<Rightarrow> bool" where
  "array_or_absent None = True"
| "array_or_absent (Some JNull) = True"
| "array_or_absent (Some (JArr xs)) = True"
| "array_or_absent (Some v) = False"

definition product_node :: "'n json \<Rightarrow> bool" where
  "product_node node =
     (node \<noteq> JNull
      \<and> (case getProp node ''title'' of Some (JStr t) \<Rightarrow> True | _ \<Rightarrow> False)
      \<and> array_or_absent (optProp (optProp (Some node) ''images'') ''edges''))"

text \<open>
  The invariant of the effect while the component stays mounted, relative to the
  products shown before the effect started.
\<close>

definition batch_inv ::
  "(string \<rightharpoonup> 'n OverlayProduct list) \<Rightarrow> 'n Overlay \<Rightarrow> bool" where
  "batch_inv products s =
     (\<not> cancelled s \<and>
      (case batch s of
         Waiting \<Rightarrow> (\<forall>e. Rejected e \<notin> set (queries s))
            \<and> productsByHandle s = products \<and> error s = None \<and> updates s = [SetError None]
       | Resolved entries \<Rightarrow> (\<forall>e. Rejected e \<notin> set (queries s)) \<and> Pending \<notin> set (queries s)
            \<and> productsByHandle s = products \<and> error s = None \<and> updates s = [SetError None]
       | Failed e \<Rightarrow> Rejected e \<in> set (queries s)
            \<and> productsByHandle s = products \<and> error s = None \<and> updates s = [SetError None]
       | Done \<Rightarrow>
            ((\<forall>e. Rejected e \<notin> set (queries s)) \<and> Pending \<notin> set (queries s))
          \<or> (\<exists>e. Rejected e \<in> set (queries s) \<and> productsByHandle s = products
                \<and> error s = Some (error_text e)
                \<and> updates s = [SetError None, SetError (Some (error_text e))])))"

section \<open>Example inputs\<close>

text \<open>
  An engine for evaluating the model on examples. Its numbers are the reals; the
  conversions between numbers and text are tabulated on the two numbers the examples
  use, 12 and 19.5, and treat every other input as 0; letters are upper-cased in ASCII.
\<close>

definition ascii_upper :: "char \<Rightarrow> char" where
  "ascii_upper c =
     (if (97::nat) \<le> of_char c \<and> of_char c \<le> (122::nat) then char_of (of_char c - (32::nat)) else c)"

definition sample_engine :: "real engine" where
  "sample_engine =
     \<lparr>num_truthy = (\<lambda>n. n \<noteq> 0),
      num_to_string = (\<lambda>n. if n = 12 then ''12'' else ''0''),
      num_to_json = (\<lambda>n. if n = 12 then ''12'' else ''0''),
      parseFloat = (\<lambda>s. if s = ''19.5'' then 39 / 2 else 0),
      toLocaleString = (\<lambda>n. if n = 39 / 2 then ''19.5'' else ''0''),
      toUpperCase = map ascii_upper\<rparr>"

definition sample_config :: Config where
  "sample_config =
     \<lparr>domain = ''shop.example'', storefrontAccessToken = ''token'', apiVersion = ''2026-01''\<rparr>"

text \<open>A network that answers every request with the given status and parsed body.\<close>

definition sample_response :: "nat \<Rightarrow> real json \<Rightarrow> Request \<Rightarrow> js_error + real Response" where
  "sample_response code payload = (\<lambda>req. Inr \<lparr>status = code, json_body = Inr payload\<rparr>)"

text \<open>A network whose response body does not parse.\<close>

definition parse_failure :: "nat \<Rightarrow> Request \<Rightarrow> js_error + real Response" where
  "parse_failure code =
     (\<lambda>req. Inr \<lparr>status = code, json_body = Inl (SyntaxError ''Unexpected end of JSON input'')\<rparr>)"

text \<open>The body \<^verbatim>\<open>{"errors": [{"message": m1}, ...]}\<close>.\<close>

definition errors_payload :: "string list \<Rightarrow> real json" where
  "errors_payload messages =
     JObj [(''errors'', JArr (map (\<lambda>m. JObj [(''message'', JStr m)]) messages))]"

text \<open>The three-character message \<^verbatim>\<open>a"b\<close>.\<close>

definition quoted_message :: string where
  "quoted_message = [CHR ''a'', CHR 0x22, CHR ''b'']"

text \<open>
  A product node that carries its price both where the collection path and where the
  single-product path read it, and a collection response around given edges.
\<close>

definition sample_node :: "real json" where
  "sample_node =
     JObj [(''id'', JStr ''gid://shopify/Product/1''),
           (''title'', JStr ''Hoodie''),
           (''handle'', JStr ''hoodie''),
           (''featuredImage'', JNull),
           (''priceRange'', JObj [(''minVariantPrice'',
               JObj [(''amount'', JStr ''19.5''), (''currencyCode'', JStr ''USD'')])]),
           (''variants'', JObj [(''edges'', JArr [JObj [(''node'',
               JObj [(''id'', JStr ''gid://shopify/ProductVariant/1''),
                     (''price'', JObj [(''amount'', JStr ''19.5''),
                                       (''currencyCode'', JStr ''USD'')])])]])])]"

definition sample_collection :: "real json list \<Rightarrow> real json" where
  "sample_collection edges =
     JObj [(''data'', JObj [(''collectionByHandle'',
        JObj [(''title'', JStr ''Hoodies''), (''products'', JObj [(''edges'', JArr edges)])])])]"

text \<open>Panel 1 resolves with no products, then panel 0 rejects.\<close>

definition sample_settlements :: "real event list" where
  "sample_settlements =
     [Settle 1 (Inr []), Settle 0 (Inl (Error ''Storefront API error: {}''))]"

section \<open>Crossfade: the end of the scroll range\<close>

lemma upt_2: "[0..<2] = [0, Suc 0]"
  by (simp add: upt_rec)

lemma map_filter_append: "List.map_filter f (xs @ ys) = List.map_filter f xs @ List.map_filter f ys"
  by (simp add: List.map_filter_def)

lemma map_filter_none: "\<forall>x\<in>set xs. f x = None \<Longrightarrow> List.map_filter f xs = []"
  by (induction xs) simp_all

lemma rendered_indices:
  "map (\<lambda>r. (r_idx r, r_opacity r))
     (List.map_filter (renderPanel i fr) (zip panels [0..<length panels]))
   = map (\<lambda>idx. (idx, if int idx = i then 1 - fr else fr))
       (filter (\<lambda>idx. int idx = i \<or> int idx = i + 1) [0..<length panels])"
proof (induction panels rule: rev_induct)
  case Nil
  then show ?case by simp
next
  case (snoc p ps)
  have "zip (ps @ [p]) [0..<length (ps @ [p])] = zip ps [0..<length ps] @ [(p, length ps)]"
    by simp
  then show ?case
    using snoc by (simp add: map_filter_append renderPanel_def)
qed

lemma filter_two_consecutive:
  "filter (\<lambda>idx. idx = a \<or> idx = Suc a) [0..<n]
     = (if n \<le> a then [] else if n = Suc a then [a] else [a, Suc a])"
  by (induction n) auto

text \<open>
  Before the last segment, that is for an offset from 0 with \<open>offset * N < N - 1\<close>, the
  selection is the one the comment in the source describes: the panel at the current
  index and the next one, with opacities \<open>1 - fraction\<close> and \<open>fraction\<close>.
\<close>

lemma crossfade_inner_segment:
  assumes "0 \<le> offset"
    and "offset * real (length panels) < real (length panels) - 1"
  shows "map (\<lambda>r. (r_idx r, r_opacity r)) (crossfade panels offset)
           = [(nat \<lfloor>offset * real (length panels)\<rfloor>,
               1 - (offset * real (length panels) - of_int \<lfloor>offset * real (length panels)\<rfloor>)),
              (Suc (nat \<lfloor>offset * real (length panels)\<rfloor>),
               offset * real (length panels) - of_int \<lfloor>offset * real (length panels)\<rfloor>)]"
proof -
  define pos where "pos = offset * real (length panels)"
  define a where "a = nat \<lfloor>pos\<rfloor>"
  have pos0: "0 \<le> pos" using assms(1) by (simp add: pos_def)
  then have fl: "\<lfloor>pos\<rfloor> = int a" by (simp add: a_def)
  have "real_of_int \<lfloor>pos\<rfloor> \<le> pos" by simp
  with assms(2) have "real a < real (length panels) - 1"
    unfolding pos_def [symmetric] fl by simp
  then have lt: "Suc a < length panels" by linarith
  have sel: "(\<lambda>idx. int idx = int a \<or> int idx = int a + 1) = (\<lambda>idx. idx = a \<or> idx = Suc a)"
    by auto
  have "map (\<lambda>r. (r_idx r, r_opacity r)) (crossfade panels offset)
          = map (\<lambda>idx. (idx, if int idx = int a then 1 - (pos - real a) else pos - real a))
              (filter (\<lambda>idx. idx = a \<or> idx = Suc a) [0..<length panels])"
    unfolding crossfade_def Let_def pos_def [symmetric] fl rendered_indices sel by simp
  also have "\<dots> = [(a, 1 - (pos - real a)), (Suc a, pos - real a)]"
    using lt by (simp add: filter_two_consecutive)
  finally show ?thesis
    unfolding pos_def [symmetric] fl a_def [symmetric] by simp
qed

lemma crossfade_inner_sum:
  assumes "0 \<le> offset"
    and "offset * real (length panels) < real (length panels) - 1"
  shows "length (crossfade panels offset) = 2
       \<and> sum_list (map r_opacity (crossfade panels offset)) = 1"
proof -
  have "map r_opacity (crossfade panels offset)
          = map snd (map (\<lambda>r. (r_idx r, r_opacity r)) (crossfade panels offset))"
    by (simp add: comp_def)
  moreover have "length (crossfade panels offset)
          = length (map (\<lambda>r. (r_idx r, r_opacity r)) (crossfade panels offset))"
    by simp
  ultimately show ?thesis
    unfolding crossfade_inner_segment [OF assms] by simp
qed

text \<open>
  In the last segment of the scroll range, from \<open>(N - 1) / N\<close> up to but excluding 1, only
  the last of the \<open>N\<close> panels is rendered, and its opacity \<open>N * (1 - offset)\<close> falls to 0 as
  the offset approaches 1.
\<close>

lemma crossfade_last_segment:
  assumes "panels \<noteq> []"
    and "real (length panels - 1) \<le> offset * real (length panels)"
    and "offset < 1"
  shows "map (\<lambda>r. (r_idx r, r_opacity r)) (crossfade panels offset)
           = [(length panels - 1, real (length panels) * (1 - offset))]"
proof -
  define n where "n = length panels - 1"
  from assms(1) have len: "length panels = Suc n" unfolding n_def by (cases panels) simp_all
  have pos: "real n \<le> offset * real (Suc n)"
    using assms(2) unfolding len by simp
  have lt: "offset * real (Suc n) < real n + 1"
  proof -
    have "offset * real (Suc n) < 1 * real (Suc n)"
      using assms(3) by (rule mult_strict_right_mono) simp
    also have "1 * real (Suc n) = real n + 1" by simp
    finally show ?thesis .
  qed
  have fl: "\<lfloor>offset * real (Suc n)\<rfloor> = int n"
    using pos lt by (simp add: floor_unique)
  from assms(1) have split: "panels = butlast panels @ [last panels]" by simp
  have lb: "length (butlast panels) = n" by (simp add: len)
  have z: "zip panels [0..<Suc n]
             = zip (butlast panels) [0..<n] @ [(last panels, n)]"
  proof -
    have "zip panels [0..<Suc n] = zip (butlast panels @ [last panels]) ([0..<n] @ [n])"
      using split by simp
    also have "\<dots> = zip (butlast panels) [0..<n] @ zip [last panels] [n]"
      by (rule zip_append) (simp add: len)
    finally show ?thesis by simp
  qed
  have skipped: "\<forall>x\<in>set (zip (butlast panels) [0..<n]).
                   renderPanel (int n) (offset * real (Suc n) - real n) x = None"
    by (auto simp: renderPanel_def dest!: set_zip_rightD)
  have "crossfade panels offset
          = List.map_filter (renderPanel (int n) (offset * real (Suc n) - real n))
              (zip (butlast panels) [0..<n] @ [(last panels, n)])"
    unfolding crossfade_def Let_def len z [symmetric] fl by simp
  also have "\<dots> = List.map_filter (renderPanel (int n) (offset * real (Suc n) - real n))
                      [(last panels, n)]"
    unfolding map_filter_append map_filter_none [OF skipped] by simp
  finally show ?thesis
    by (simp add: renderPanel_def len algebra_simps)
qed

text \<open>
  C1. For every scroll offset in [0,1] and every panel count N >= 1 the selection renders
  exactly one or two panels whose opacities sum to exactly 1. The code does not: with the
  two panels of \<open>PANELS\<close>, at offset 1 the index is 2 and no panel is rendered, and at
  offset 3/4 only the last panel is rendered, at opacity 1/2.
\<close>

theorem crossfade_blank_at_end:
  "crossfade PANELS 1 = []
   \<and> map (\<lambda>r. (r_idx r, r_opacity r)) (crossfade PANELS (3/4)) = [(1, 1/2)]"
  by (simp add: crossfade_def PANELS_def upt_2 renderPanel_def)

text \<open>
  C2. As the scroll offset approaches 1 the last panel is rendered and its opacity equals
  or converges to 1, and past the last panel only the last panel renders, at full
  opacity. The code does not: with the two panels of \<open>PANELS\<close> the last panel has opacity
  1/50 at offset 99/100 and 1/500 at offset 999/1000, and at offset 1 it is not rendered.
\<close>

theorem last_panel_fades_out:
  "map (\<lambda>r. (r_idx r, r_opacity r)) (crossfade PANELS (99/100)) = [(1, 1/50)]
   \<and> map (\<lambda>r. (r_idx r, r_opacity r)) (crossfade PANELS (999/1000)) = [(1, 1/500)]
   \<and> map r_idx (crossfade PANELS 1) = []"
  by (simp add: crossfade_def PANELS_def upt_2 renderPanel_def)

section \<open>Missing configuration\<close>

lemma strip_empty: "strip_trailing_slashes (strip_scheme []) = []"
  by (simp add: strip_trailing_slashes_def strip_scheme_def)

text \<open>
  C3. When the configured store domain or the configured access token is empty, both
  \<open>storefrontQuery\<close> and \<open>shopifyFetch\<close> reject with their configuration error and issue
  no network request, for every query and every variables mapping.
\<close>

theorem missing_config_rejects_before_fetch:
  assumes "domain cfg = [] \<or> storefrontAccessToken cfg = []"
  shows "storefrontQuery E cfg fetch query variables =
           (Inl (Error ''Missing VITE_SHOPIFY_STORE_DOMAIN or VITE_SHOPIFY_STOREFRONT_TOKEN''), [])
       \<and> shopifyFetch E cfg fetch query vars =
           (Inl (Error ''Missing Shopify configuration (domain or token)''), [])"
proof
  show "storefrontQuery E cfg fetch query variables =
           (Inl (Error ''Missing VITE_SHOPIFY_STORE_DOMAIN or VITE_SHOPIFY_STOREFRONT_TOKEN''), [])"
    using assms by (simp add: storefrontQuery_def)
next
  have "buildEndpoint cfg = Inl (Error ''Missing Shopify configuration (domain or token)'')"
    using assms by (auto simp: buildEndpoint_def strip_empty Let_def)
  then show "shopifyFetch E cfg fetch query vars =
           (Inl (Error ''Missing Shopify configuration (domain or token)''), [])"
    by (simp add: shopifyFetch_def)
qed

theorem missing_config_rejects_before_fetch_witness:
  "domain (sample_config\<lparr>domain := []\<rparr>) = []
   \<and> storefrontQuery sample_engine (sample_config\<lparr>domain := []\<rparr>)
       (\<lambda>req. Inl (TypeError ''Failed to fetch'')) ''query { shop { name } }'' None =
           (Inl (Error ''Missing VITE_SHOPIFY_STORE_DOMAIN or VITE_SHOPIFY_STOREFRONT_TOKEN''), [])
   \<and> shopifyFetch sample_engine (sample_config\<lparr>domain := []\<rparr>)
       (\<lambda>req. Inl (TypeError ''Failed to fetch'')) ''query { shop { name } }'' (JObj []) =
           (Inl (Error ''Missing Shopify configuration (domain or token)''), [])"
  using missing_config_rejects_before_fetch [of "sample_config\<lparr>domain := []\<rparr>" sample_engine
      "\<lambda>req. Inl (TypeError ''Failed to fetch'')" "''query { shop { name } }''" None "JObj []"]
  by (simp add: sample_config_def)

section \<open>Reading properties\<close>

lemma readProp_defined: "v \<noteq> JNull \<Longrightarrow> readProp (Some v) k = Inr (getProp v k)"
  by (cases v) simp_all

lemma optProp_defined: "v \<noteq> JNull \<Longrightarrow> optProp (Some v) k = getProp v k"
  by (cases v) simp_all

lemma getProp_Some_not_null: "getProp v k = Some x \<Longrightarrow> v \<noteq> JNull"
  by (cases v) simp_all

lemma optProp_SomeD: "optProp v k = Some x \<Longrightarrow> \<exists>kvs. v = Some (JObj kvs) \<and> map_of kvs k = Some x"
  by (cases "(v, k)" rule: optProp.cases) auto

section \<open>The clients on a response\<close>

lemma buildEndpoint_ok:
  assumes "strip_trailing_slashes (strip_scheme (domain cfg)) \<noteq> []"
    and "storefrontAccessToken cfg \<noteq> []"
  shows "\<exists>endpoint. buildEndpoint cfg = Inr endpoint"
  using assms by (simp add: buildEndpoint_def Let_def)

lemma stripped_nonempty:
  "strip_trailing_slashes (strip_scheme d) \<noteq> [] \<Longrightarrow> d \<noteq> []"
  by (auto simp: strip_trailing_slashes_def strip_scheme_def)

lemma storefrontQuery_response:
  assumes "domain cfg \<noteq> []" and "storefrontAccessToken cfg \<noteq> []"
    and "\<And>req. fetch req = Inr res"
  shows "fst (storefrontQuery E cfg fetch query variables) =
           andThen (json_body res) (\<lambda>json.
            andThen (if \<not> ok res then Inr True
                     else andThen (readProp (Some json) ''errors'')
                            (\<lambda>errs. Inr (truthy_opt E errs))) (\<lambda>failed.
              if failed
              then andThen (readProp (Some json) ''errors'') (\<lambda>errs.
                     Inl (Error (''Storefront API error: ''
                                 @ stringify_opt E ''  '' (js_or E errs (Some json)))))
              else readProp (Some json) ''data''))"
  using assms by (simp add: storefrontQuery_def Let_def)

lemma shopifyFetch_response:
  assumes "strip_trailing_slashes (strip_scheme (domain cfg)) \<noteq> []"
    and "storefrontAccessToken cfg \<noteq> []"
    and "\<And>req. fetch req = Inr res"
  shows "fst (shopifyFetch E cfg fetch query vars) =
             andThen (case json_body res of
                        Inl err \<Rightarrow> Inl (Error ''Invalid response from Shopify'')
                      | Inr json \<Rightarrow> Inr json) (\<lambda>json.
               if \<not> ok res
               then (let m = optProp (optIndex0 (optProp (Some json) ''errors'')) ''message''
                     in Inl (Error (if truthy_opt E m then toString_opt E m
                                    else ''Shopify API error ('' @ decimal (status res) @ '')'')))
               else andThen (readProp (Some json) ''errors'') (\<lambda>errors.
                 if truthy_opt E errors
                 then (let m = optProp (optIndex0 errors) ''message''
                       in Inl (Error (if truthy_opt E m then toString_opt E m
                                      else ''Shopify API error'')))
                 else readProp (Some json) ''data''))"
proof -
  from buildEndpoint_ok [OF assms(1,2)] obtain endpoint where "buildEndpoint cfg = Inr endpoint" ..
  then show ?thesis
    using assms(3) by (simp add: shopifyFetch_def Let_def)
qed

lemma sample_config_ok:
  "strip_trailing_slashes (strip_scheme (domain sample_config)) \<noteq> []"
  "storefrontAccessToken sample_config \<noteq> []"
  by (simp_all add: sample_config_def strip_trailing_slashes_def strip_scheme_def)

lemma storefrontQuery_sample:
  "payload \<noteq> JNull \<Longrightarrow> \<not> truthy_opt sample_engine (getProp payload ''errors'') \<Longrightarrow>
   fst (storefrontQuery sample_engine sample_config (sample_response 200 payload) query variables)
     = Inr (getProp payload ''data'')"
  by (simp add: storefrontQuery_def sample_config_def sample_response_def ok_def Let_def
      readProp_defined)

lemma sample_query:
  assumes "payload \<noteq> JNull" and "\<not> truthy_opt sample_engine (getProp payload ''errors'')"
  shows "storefrontQuery sample_engine sample_config (sample_response 200 payload) query variables
           = (Inr (getProp payload ''data''),
              snd (storefrontQuery sample_engine sample_config (sample_response 200 payload)
                     query variables))"
  using storefrontQuery_sample [OF assms, of query variables] by (metis prod.collapse)

section \<open>Missing and empty collections\<close>

text \<open>
  C4. When the data of the response has no \<open>collectionByHandle\<close> field, or the field is
  null, or the collection is present and its product edge list is empty,
  \<open>getCollectionProducts\<close> returns the empty list and does not throw.
\<close>

theorem missing_or_empty_collection_is_empty_list:
  assumes "storefrontQuery E cfg fetch COLLECTION_QUERY
             (Some (JObj [(''handle'', JStr handle), (''first'', JNum first)]))
           = (Inr (Some data), requests)"
    and "data \<noteq> JNull"
    and "getProp data ''collectionByHandle'' = None
         \<or> getProp data ''collectionByHandle'' = Some JNull
         \<or> (\<exists>col products.
               getProp data ''collectionByHandle'' = Some col
             \<and> getProp col ''products'' = Some products
             \<and> getProp products ''edges'' = Some (JArr []))"
  shows "getCollectionProducts E cfg fetch handle first = (Inr [], requests)"
proof -
  have d: "readProp (Some data) ''collectionByHandle'' = Inr (getProp data ''collectionByHandle'')"
    using assms(2) by (cases data) simp_all
  from assms(3) consider
      (absent) "getProp data ''collectionByHandle'' = None"
    | (null) "getProp data ''collectionByHandle'' = Some JNull"
    | (empty) col products where "getProp data ''collectionByHandle'' = Some col"
        "getProp col ''products'' = Some products" "getProp products ''edges'' = Some (JArr [])"
    by (elim disjE exE conjE) blast+
  then show ?thesis
  proof cases
    case absent
    then show ?thesis using assms(1) d by (simp add: getCollectionProducts_def)
  next
    case null
    then show ?thesis using assms(1) d by (simp add: getCollectionProducts_def)
  next
    case empty
    from empty(2) obtain kvs where col: "col = JObj kvs" by (cases col) simp_all
    from empty(3) obtain kvs' where ps: "products = JObj kvs'" by (cases products) simp_all
    show ?thesis
      using assms(1) d empty col ps by (simp add: getCollectionProducts_def)
  qed
qed

theorem missing_or_empty_collection_is_empty_list_witness:
  "fst (getCollectionProducts sample_engine sample_config
     (sample_response 200 (JObj [(''data'', JObj [])])) ''hoodies-1'' 12) = Inr []
   \<and> fst (getCollectionProducts sample_engine sample_config
     (sample_response 200 (JObj [(''data'', JObj [(''collectionByHandle'', JNull)])])) ''hoodies-1'' 12) = Inr []
   \<and> fst (getCollectionProducts sample_engine sample_config
     (sample_response 200 (JObj [(''data'', JObj [(''collectionByHandle'',
        JObj [(''title'', JStr ''Hoodies''), (''products'', JObj [(''edges'', JArr [])])])])]))
     ''hoodies-1'' 12) = Inr []"
proof -
  note q = sample_query [where query = COLLECTION_QUERY
      and variables = "Some (JObj [(''handle'', JStr ''hoodies-1''), (''first'', JNum 12)])"]
  show ?thesis
    using missing_or_empty_collection_is_empty_list
            [OF q [of "JObj [(''data'', JObj [])]", simplified]]
          missing_or_empty_collection_is_empty_list
            [OF q [of "JObj [(''data'', JObj [(''collectionByHandle'', JNull)])]", simplified]]
          missing_or_empty_collection_is_empty_list
            [OF q [of "JObj [(''data'', JObj [(''collectionByHandle'',
        JObj [(''title'', JStr ''Hoodies''), (''products'', JObj [(''edges'', JArr [])])])])]", simplified]]
    by simp
qed

section \<open>The two price formats\<close>

lemma edge_urls_total: "array_or_absent v \<Longrightarrow> \<exists>urls. edge_urls E v = Inr urls"
  by (cases "(E, v)" rule: edge_urls.cases) simp_all

lemma formatShopifyProduct_product_node:
  assumes "product_node node"
  shows "\<exists>p. formatShopifyProduct E (Some node) = Inr p
          \<and> sp_price p = ''$'' @ toLocaleString E (parseFloat E (toString E
                (or_default E (first_variant_price node ''amount'') (JStr ''0''))))
          \<and> priceVal p = parseFloat E (toString E
                (or_default E (first_variant_price node ''amount'') (JStr ''0'')))
          \<and> currencyCode p = or_default E (first_variant_price node ''currencyCode'') (JStr ''USD'')
          \<and> variantId p =
               optProp (optProp (optIndex0 (optProp (optProp (Some node) ''variants'') ''edges''))
                  ''node'') ''id''"
proof -
  from assms have nn: "node \<noteq> JNull" by (simp add: product_node_def)
  from assms obtain t where t: "getProp node ''title'' = Some (JStr t)"
    by (auto simp: product_node_def split: option.splits json.splits)
  from assms obtain urls where
    urls: "edge_urls E (optProp (optProp (Some node) ''images'') ''edges'') = Inr urls"
    using edge_urls_total unfolding product_node_def by blast
  show ?thesis
    using nn t urls
    by (simp add: formatShopifyProduct_def readProp_defined optProp_defined Let_def
        first_variant_price_def)
qed

lemma shape_edge_amount_and_currency:
  assumes "price_range_min edge = Some mvp" and "mvp \<noteq> JNull"
  shows "\<exists>p. shape_edge E edge = Inr p \<and> op_price p = amount_and_currency E edge"
proof -
  from assms(1) obtain pr where
    pr: "optProp (optProp (Some edge) ''node'') ''priceRange'' = Some (JObj pr)"
      "map_of pr ''minVariantPrice'' = Some mvp"
    unfolding price_range_min_def by (auto dest!: optProp_SomeD)
  from pr(1) obtain kvs where
    node: "optProp (Some edge) ''node'' = Some (JObj kvs)" "map_of kvs ''priceRange'' = Some (JObj pr)"
    by (auto dest!: optProp_SomeD)
  from node(1) obtain ekvs where edge: "edge = JObj ekvs" "map_of ekvs ''node'' = Some (JObj kvs)"
    by (auto dest!: optProp_SomeD)
  show ?thesis
    using edge node(2) pr(2) assms(2)
    by (simp add: shape_edge_def amount_and_currency_def price_range_min_def
        readProp_defined optProp_defined)
qed

lemma map_result_total:
  assumes "\<forall>x\<in>set xs. \<exists>y. f x = Inr y \<and> g y = h x"
  shows "\<exists>ys. map_result f xs = Inr ys \<and> map g ys = map h xs"
  using assms
proof (induction xs)
  case Nil
  then show ?case by simp
next
  case (Cons x xs)
  then obtain y ys where "f x = Inr y" "g y = h x" "map_result f xs = Inr ys" "map g ys = map h xs"
    by auto
  then show ?case by simp
qed

text \<open>
  C5. For every product node the collection path produces a price string that is the
  minimum-variant price amount, a space and the currency code, verbatim, while the
  single-product path yields a string that starts with a dollar sign and continues with
  the locale formatting of the parsed amount. The theorem takes a collection response
  whose edges each carry a price object, and states the first for the list
  \<open>getCollectionProducts\<close> returns and the second for \<open>formatShopifyProduct\<close> on the node
  of each edge; \<open>toString_opt\<close> leaves a string as it is. At amount 19.5 and currency
  USD the two strings are \<open>19.5 USD\<close> and, in an engine that formats 19.5 as such,
  \<open>$19.5\<close>.
\<close>

theorem price_shaping_paths:
  assumes "storefrontQuery E cfg fetch COLLECTION_QUERY
             (Some (JObj [(''handle'', JStr handle), (''first'', JNum first)]))
           = (Inr (Some data), requests)"
    and "getProp data ''collectionByHandle'' = Some col"
    and "getProp col ''products'' = Some products"
    and "getProp products ''edges'' = Some (JArr edges)"
    and "\<forall>edge\<in>set edges. \<exists>mvp. price_range_min edge = Some mvp \<and> mvp \<noteq> JNull"
  shows "(\<exists>shaped. getCollectionProducts E cfg fetch handle first = (Inr shaped, requests)
            \<and> map op_price shaped = map (amount_and_currency E) edges)
       \<and> (\<forall>edge\<in>set edges. \<forall>node. getProp edge ''node'' = Some node \<and> product_node node \<longrightarrow>
            (\<exists>p. formatShopifyProduct E (Some node) = Inr p
               \<and> sp_price p = ''$'' @ toLocaleString E (parseFloat E (toString E
                    (or_default E (first_variant_price node ''amount'') (JStr ''0''))))))"
proof
  from assms(2) obtain dkvs where data: "data = JObj dkvs" by (cases data) simp_all
  from assms(3) obtain ckvs where col: "col = JObj ckvs" by (cases col) simp_all
  from assms(4) obtain pkvs where products: "products = JObj pkvs" by (cases products) simp_all
  from assms(5) have "\<forall>edge\<in>set edges. \<exists>p. shape_edge E edge = Inr p
                        \<and> op_price p = amount_and_currency E edge"
    using shape_edge_amount_and_currency by blast
  then obtain shaped where
    shaped: "map_result (shape_edge E) edges = Inr shaped"
      "map op_price shaped = map (amount_and_currency E) edges"
    using map_result_total [of edges "shape_edge E" op_price "amount_and_currency E"] by blast
  have "getCollectionProducts E cfg fetch handle first = (Inr shaped, requests)"
    using assms(1-4) shaped(1) data col products
    by (simp add: getCollectionProducts_def)
  with shaped(2)
  show "\<exists>shaped. getCollectionProducts E cfg fetch handle first = (Inr shaped, requests)
            \<and> map op_price shaped = map (amount_and_currency E) edges"
    by blast
next
  show "\<forall>edge\<in>set edges. \<forall>node. getProp edge ''node'' = Some node \<and> product_node node \<longrightarrow>
            (\<exists>p. formatShopifyProduct E (Some node) = Inr p
               \<and> sp_price p = ''$'' @ toLocaleString E (parseFloat E (toString E
                    (or_default E (first_variant_price node ''amount'') (JStr ''0'')))))"
    using formatShopifyProduct_product_node by blast
qed

theorem price_shaping_paths_witness:
  "map op_price (projr (fst (getCollectionProducts sample_engine sample_config
       (sample_response 200 (sample_collection [JObj [(''node'', sample_node)]])) ''hoodies-1'' 12)))
     = [''19.5 USD'']
   \<and> (\<exists>p. formatShopifyProduct sample_engine (Some sample_node) = Inr p \<and> sp_price p = ''$19.5'')"
proof -
  have wf: "\<forall>edge\<in>set [JObj [(''node'', sample_node)]].
              \<exists>mvp. price_range_min edge = Some mvp \<and> mvp \<noteq> JNull"
    by (simp add: price_range_min_def sample_node_def)
  have pn: "product_node sample_node"
    by (simp add: product_node_def sample_node_def)
  have fv: "first_variant_price sample_node ''amount'' = Some (JStr ''19.5'')"
    by (simp add: first_variant_price_def sample_node_def)
  have ac: "amount_and_currency sample_engine (JObj [(''node'', sample_node)]) = ''19.5 USD''"
    by (simp add: amount_and_currency_def price_range_min_def sample_node_def)
  let ?payload = "sample_collection [JObj [(''node'', sample_node)]]"
  let ?col = "JObj [(''title'', JStr ''Hoodies''),
                    (''products'', JObj [(''edges'', JArr [JObj [(''node'', sample_node)]])])]"
  have q: "storefrontQuery sample_engine sample_config (sample_response 200 ?payload)
             COLLECTION_QUERY (Some (JObj [(''handle'', JStr ''hoodies-1''), (''first'', JNum 12)]))
           = (Inr (Some (JObj [(''collectionByHandle'', ?col)])),
              snd (storefrontQuery sample_engine sample_config (sample_response 200 ?payload)
                     COLLECTION_QUERY
                     (Some (JObj [(''handle'', JStr ''hoodies-1''), (''first'', JNum 12)]))))"
    using sample_query [of ?payload] by (simp add: sample_collection_def)
  have c: "getProp (JObj [(''collectionByHandle'', ?col)]) ''collectionByHandle'' = Some ?col"
    by simp
  have p: "getProp ?col ''products'' = Some (JObj [(''edges'', JArr [JObj [(''node'', sample_node)]])])"
    by simp
  have e: "getProp (JObj [(''edges'', JArr [JObj [(''node'', sample_node)]])]) ''edges''
             = Some (JArr [JObj [(''node'', sample_node)]])"
    by simp
  show ?thesis
    using price_shaping_paths [OF q c p e wf] pn fv ac
    by (fastforce simp: sample_engine_def)
qed

text \<open>
  C10. For every product node whose variant edge list is absent or empty,
  \<open>formatShopifyProduct\<close> does not throw: it returns price \<open>$0\<close>, priceVal 0, currency
  code USD and an undefined variantId. The engine is taken to parse the text 0 as the
  number 0 and to format that number as the text 0.
\<close>

theorem no_variants_defaults:
  fixes E :: "'n::zero engine"
  assumes "product_node node"
    and "optProp (optProp (Some node) ''variants'') ''edges'' = None
         \<or> optProp (optProp (Some node) ''variants'') ''edges'' = Some JNull
         \<or> optProp (optProp (Some node) ''variants'') ''edges'' = Some (JArr [])"
    and "parseFloat E ''0'' = 0" and "toLocaleString E 0 = ''0''"
  shows "\<exists>p. formatShopifyProduct E (Some node) = Inr p
           \<and> sp_price p = ''$0'' \<and> priceVal p = 0
           \<and> currencyCode p = JStr ''USD'' \<and> variantId p = None"
proof -
  have fv: "optIndex0 (optProp (optProp (Some node) ''variants'') ''edges'') = None"
    using assms(2) by (elim disjE) simp_all
  then have "first_variant_price node field = None" for field
    by (simp add: first_variant_price_def)
  then show ?thesis
    using formatShopifyProduct_product_node [OF assms(1), of E] fv assms(3,4)
    by auto
qed

theorem no_variants_defaults_witness:
  "\<exists>p. formatShopifyProduct sample_engine
          (Some (JObj [(''id'', JStr ''gid://shopify/Product/2''), (''title'', JStr ''Shirt''),
                       (''variants'', JObj [(''edges'', JArr [])])])) = Inr p
       \<and> sp_price p = ''$0'' \<and> priceVal p = 0
       \<and> currencyCode p = JStr ''USD'' \<and> variantId p = None"
  using no_variants_defaults [of "JObj [(''id'', JStr ''gid://shopify/Product/2''),
      (''title'', JStr ''Shirt''), (''variants'', JObj [(''edges'', JArr [])])]" sample_engine]
  by (simp add: product_node_def sample_engine_def)

section \<open>What the serialized error list contains\<close>

lemma sublist_trans: "sublist x y \<Longrightarrow> sublist y z \<Longrightarrow> sublist x z"
  by (rule sublist_order.order_trans)

lemma sublist_js_join: "x \<in> set parts \<Longrightarrow> sublist x (js_join sep parts)"
proof (induction sep parts rule: js_join.induct)
  case (1 sep)
  then show ?case by simp
next
  case (2 sep x')
  then show ?case by simp
next
  case (3 sep a b bs)
  show ?case
  proof (cases "x = a")
    case True
    then show ?thesis by simp
  next
    case False
    with 3 have "sublist x (js_join sep (b # bs))" by simp
    moreover have "sublist (js_join sep (b # bs)) ((a @ sep) @ js_join sep (b # bs))"
      by (rule sublist_append_leftI)
    ultimately have "sublist x ((a @ sep) @ js_join sep (b # bs))"
      by (rule sublist_trans)
    then show ?thesis by simp
  qed
qed

lemma sublist_wrap:
  assumes x: "x \<in> set parts"
  shows "sublist x (wrap l r gap ind parts)"
proof -
  from x have ne: "parts \<noteq> []" by auto
  have j: "sublist x (js_join sep parts)" for sep using x by (rule sublist_js_join)
  show ?thesis
  proof (cases "gap = []")
    case True
    have "sublist (js_join '','' parts) (l @ js_join '','' parts @ r)" by (rule sublist_appendI)
    with j have "sublist x (l @ js_join '','' parts @ r)" by (rule sublist_trans)
    with ne True show ?thesis
      unfolding wrap_def by simp
  next
    case False
    define sep where "sep = '','' @ [CHR 0x0A] @ (ind @ gap)"
    have "sublist (js_join sep parts)
            ((l @ [CHR 0x0A] @ (ind @ gap)) @ js_join sep parts @ ([CHR 0x0A] @ ind @ r))"
      by (rule sublist_appendI)
    with j have "sublist x ((l @ [CHR 0x0A] @ (ind @ gap)) @ js_join sep parts @ ([CHR 0x0A] @ ind @ r))"
      by (rule sublist_trans)
    with ne False show ?thesis
      unfolding wrap_def sep_def by simp
  qed
qed

lemma stringify_object_member:
  assumes "map_of kvs k = Some v"
  shows "sublist (quote k @ '':'' @ (if gap = [] then [] else '' '') @ stringify E gap (ind @ gap) v)
           (stringify E gap ind (JObj kvs))"
proof -
  define member where
    "member = (\<lambda>(k, v). quote k @ '':'' @ (if gap = [] then [] else '' '')
                        @ stringify E gap (ind @ gap) v)"
  from assms have "(k, v) \<in> set kvs" by (rule map_of_SomeD)
  then have "member (k, v) \<in> set (map member kvs)" by simp
  then have "sublist (member (k, v)) (wrap ''{'' ''}'' gap ind (map member kvs))"
    by (rule sublist_wrap)
  then show ?thesis
    unfolding member_def by simp
qed

lemma stringify_array_element:
  assumes "x \<in> set xs"
  shows "sublist (stringify E gap (ind @ gap) x) (stringify E gap ind (JArr xs))"
proof -
  from assms have "stringify E gap (ind @ gap) x \<in> set (map (stringify E gap (ind @ gap)) xs)"
    by simp
  then have "sublist (stringify E gap (ind @ gap) x)
               (wrap ''['' '']'' gap ind (map (stringify E gap (ind @ gap)) xs))"
    by (rule sublist_wrap)
  then show ?thesis by simp
qed

lemma stringify_errors_message:
  assumes "getProp e ''message'' = Some (JStr X)"
  shows "sublist (quote X) (stringify E gap ind (JArr (e # es)))"
proof -
  from assms obtain kvs where e: "e = JObj kvs" "map_of kvs ''message'' = Some (JStr X)"
    by (cases e) simp_all
  define pre where "pre = quote ''message'' @ '':'' @ (if gap = [] then [] else '' '')"
  have a: "sublist (stringify E gap ((ind @ gap) @ gap) (JStr X))
             (pre @ stringify E gap ((ind @ gap) @ gap) (JStr X))"
    by (rule sublist_append_leftI)
  have b: "sublist (pre @ stringify E gap ((ind @ gap) @ gap) (JStr X))
             (stringify E gap (ind @ gap) (JObj kvs))"
    using stringify_object_member [OF e(2), of gap E "ind @ gap"] unfolding pre_def by simp
  have "sublist (stringify E gap ((ind @ gap) @ gap) (JStr X)) (stringify E gap (ind @ gap) e)"
    unfolding e(1) using a b by (rule sublist_trans)
  then have "sublist (quote X) (stringify E gap (ind @ gap) e)"
    by simp
  moreover have "sublist (stringify E gap (ind @ gap) e) (stringify E gap ind (JArr (e # es)))"
    by (rule stringify_array_element) simp
  ultimately show ?thesis by (rule sublist_trans)
qed

lemma quote_plain:
  assumes "\<forall>c\<in>set X. quote_char c = [c]"
  shows "quote X = [CHR 0x22] @ X @ [CHR 0x22]"
proof -
  from assms have "concat (map quote_char X) = X" by (induction X) simp_all
  then show ?thesis by (simp add: quote_def)
qed

section \<open>API errors in a successful response\<close>

text \<open>
  C6, as amended. For a response with status 200 whose body has a populated errors array
  whose first entry has the string message X: \<open>shopifyFetch\<close> rejects with an error whose
  message contains X, and \<open>storefrontQuery\<close> rejects with an error whose message contains
  X as JSON.stringify quotes it; that message contains X itself when no character of X
  is escaped by the quoting.
\<close>

theorem api_error_message_in_rejection:
  assumes "strip_trailing_slashes (strip_scheme (domain cfg)) \<noteq> []"
    and "storefrontAccessToken cfg \<noteq> []"
    and "\<And>req. fetch req = Inr res"
    and "status res = 200"
    and "json_body res = Inr json"
    and "getProp json ''errors'' = Some (JArr (e # es))"
    and "getProp e ''message'' = Some (JStr X)"
  shows "(\<exists>m. fst (shopifyFetch E cfg fetch query vars) = Inl (Error m) \<and> sublist X m)
       \<and> (\<exists>m. fst (storefrontQuery E cfg fetch query variables) = Inl (Error m)
              \<and> sublist (quote X) m
              \<and> ((\<forall>c\<in>set X. quote_char c = [c]) \<longrightarrow> sublist X m))"
proof
  have ok: "ok res" using assms(4) by (simp add: ok_def)
  from assms(6) have nn: "json \<noteq> JNull" by (rule getProp_Some_not_null)
  from assms(7) have en: "e \<noteq> JNull" by (rule getProp_Some_not_null)
  have "fst (shopifyFetch E cfg fetch query vars)
          = Inl (Error (if X \<noteq> [] then X else ''Shopify API error''))"
    using shopifyFetch_response [OF assms(1-3), where E = E and query = query and vars = vars] ok assms(5-7) nn en
    by (simp add: readProp_defined optProp_defined)
  moreover have "sublist X (if X \<noteq> [] then X else ''Shopify API error'')"
    by simp
  ultimately show "\<exists>m. fst (shopifyFetch E cfg fetch query vars) = Inl (Error m) \<and> sublist X m"
    by blast
next
  have ok: "ok res" using assms(4) by (simp add: ok_def)
  from assms(6) have nn: "json \<noteq> JNull" by (rule getProp_Some_not_null)
  define m where "m = ''Storefront API error: '' @ stringify E ''  '' [] (JArr (e # es))"
  have r: "fst (storefrontQuery E cfg fetch query variables) = Inl (Error m)"
    using storefrontQuery_response [OF stripped_nonempty [OF assms(1)] assms(2,3),
        where E = E and query = query and variables = variables]
      ok assms(5,6) nn
    by (simp add: readProp_defined js_or_def m_def)
  have "sublist (quote X) (stringify E ''  '' [] (JArr (e # es)))"
    using assms(7) by (rule stringify_errors_message)
  then have q: "sublist (quote X) m"
    unfolding m_def by (rule sublist_trans) (rule sublist_append_leftI)
  have "sublist X m" if "\<forall>c\<in>set X. quote_char c = [c]"
  proof -
    have "sublist X (quote X)"
      unfolding quote_plain [OF that] by (rule sublist_appendI)
    then show ?thesis using q by (rule sublist_trans)
  qed
  with r q show "\<exists>m. fst (storefrontQuery E cfg fetch query variables) = Inl (Error m)
              \<and> sublist (quote X) m
              \<and> ((\<forall>c\<in>set X. quote_char c = [c]) \<longrightarrow> sublist X m)"
    by blast
qed

theorem api_error_message_in_rejection_witness:
  "(\<exists>m. fst (shopifyFetch sample_engine sample_config
                 (sample_response 200 (errors_payload [''X''])) ''query { shop { name } }'' (JObj []))
            = Inl (Error m) \<and> sublist ''X'' m)
   \<and> (\<exists>m. fst (storefrontQuery sample_engine sample_config
                 (sample_response 200 (errors_payload [''X''])) ''query { shop { name } }'' None)
            = Inl (Error m) \<and> sublist ''X'' m)"
proof -
  have plain: "\<forall>c\<in>set ''X''. quote_char c = [c]"
    by (simp add: quote_char_def)
  show ?thesis
    using api_error_message_in_rejection [OF sample_config_ok,
        where fetch = "sample_response 200 (errors_payload [''X''])"
          and res = "\<lparr>status = 200, json_body = Inr (errors_payload [''X''])\<rparr>"
          and json = "errors_payload [''X'']" and e = "JObj [(''message'', JStr ''X'')]"
          and es = "[]" and X = "''X''" and E = sample_engine
          and query = "''query { shop { name } }''" and vars = "JObj []" and variables = None]
      plain
    by (simp add: sample_response_def errors_payload_def) blast
qed

text \<open>
  The claim as stated fails for \<open>storefrontQuery\<close>: the message \<^verbatim>\<open>a"b\<close> is serialized
  with a backslash before the double quote, and the thrown message does not contain it.
\<close>

theorem escaped_message_counterexample:
  "fst (storefrontQuery sample_engine sample_config
          (sample_response 200 (errors_payload [quoted_message])) ''query { shop { name } }'' None)
     = Inl (Error (''Storefront API error: ['' @ [CHR 0x0A] @ ''  {'' @ [CHR 0x0A]
                   @ ''    '' @ [CHR 0x22] @ ''message'' @ [CHR 0x22] @ '': ''
                   @ [CHR 0x22, CHR ''a'', CHR 0x5C, CHR 0x22, CHR ''b'', CHR 0x22]
                   @ [CHR 0x0A] @ ''  }'' @ [CHR 0x0A] @ '']''))
   \<and> \<not> sublist quoted_message
         (''Storefront API error: ['' @ [CHR 0x0A] @ ''  {'' @ [CHR 0x0A]
                   @ ''    '' @ [CHR 0x22] @ ''message'' @ [CHR 0x22] @ '': ''
                   @ [CHR 0x22, CHR ''a'', CHR 0x5C, CHR 0x22, CHR ''b'', CHR 0x22]
                   @ [CHR 0x0A] @ ''  }'' @ [CHR 0x0A] @ '']'')"
proof
  show "fst (storefrontQuery sample_engine sample_config
          (sample_response 200 (errors_payload [quoted_message])) ''query { shop { name } }'' None)
     = Inl (Error (''Storefront API error: ['' @ [CHR 0x0A] @ ''  {'' @ [CHR 0x0A]
                   @ ''    '' @ [CHR 0x22] @ ''message'' @ [CHR 0x22] @ '': ''
                   @ [CHR 0x22, CHR ''a'', CHR 0x5C, CHR 0x22, CHR ''b'', CHR 0x22]
                   @ [CHR 0x0A] @ ''  }'' @ [CHR 0x0A] @ '']''))"
    by (simp add: storefrontQuery_def sample_config_def sample_response_def errors_payload_def
        quoted_message_def ok_def js_or_def wrap_def quote_def quote_char_def Let_def)
next
  show "\<not> sublist quoted_message
         (''Storefront API error: ['' @ [CHR 0x0A] @ ''  {'' @ [CHR 0x0A]
                   @ ''    '' @ [CHR 0x22] @ ''message'' @ [CHR 0x22] @ '': ''
                   @ [CHR 0x22, CHR ''a'', CHR 0x5C, CHR 0x22, CHR ''b'', CHR 0x22]
                   @ [CHR 0x0A] @ ''  }'' @ [CHR 0x0A] @ '']'')"
    by (simp add: quoted_message_def sublist_code(3))
qed

section \<open>The three failure conditions\<close>

text \<open>
  C7, as amended. With a complete configuration and a response from the network, each of
  the three conditions makes both clients reject.
  \<^item> Unparseable body: \<open>storefrontQuery\<close> rejects with the parse failure itself,
    \<open>shopifyFetch\<close> with the fixed message \<open>Invalid response from Shopify\<close>.
  \<^item> Status outside 200 to 299, body parsed and not null: the message of
    \<open>storefrontQuery\<close> is \<open>Storefront API error: \<close> followed by the serialized errors
    field, or by the serialized body when that field is absent or falsy; the message of
    \<open>shopifyFetch\<close> is the message of the first error when there is one and otherwise
    \<open>Shopify API error (status)\<close>.
  \<^item> Status in 200 to 299 and a populated errors array: the message of
    \<open>storefrontQuery\<close> is \<open>Storefront API error: \<close> followed by the serialized error list;
    the message of \<open>shopifyFetch\<close> is the message of the first error when there is one and
    otherwise \<open>Shopify API error\<close>.
\<close>

theorem query_failures:
  assumes "strip_trailing_slashes (strip_scheme (domain cfg)) \<noteq> []"
    and "storefrontAccessToken cfg \<noteq> []"
    and "\<And>req. fetch req = Inr res"
  shows "(\<forall>e. json_body res = Inl e \<longrightarrow>
            fst (storefrontQuery E cfg fetch query variables) = Inl e
          \<and> fst (shopifyFetch E cfg fetch query vars)
              = Inl (Error ''Invalid response from Shopify''))
       \<and> (\<forall>json. json_body res = Inr json \<and> json \<noteq> JNull \<and> \<not> ok res \<longrightarrow>
            fst (storefrontQuery E cfg fetch query variables)
              = Inl (Error (''Storefront API error: ''
                   @ stringify_opt E ''  '' (js_or E (getProp json ''errors'') (Some json))))
          \<and> fst (shopifyFetch E cfg fetch query vars)
              = Inl (Error
                  (if truthy_opt E (optProp (optIndex0 (getProp json ''errors'')) ''message'')
                   then toString_opt E (optProp (optIndex0 (getProp json ''errors'')) ''message'')
                   else ''Shopify API error ('' @ decimal (status res) @ '')'')))
       \<and> (\<forall>json e es. json_body res = Inr json \<and> ok res
              \<and> getProp json ''errors'' = Some (JArr (e # es)) \<longrightarrow>
            fst (storefrontQuery E cfg fetch query variables)
              = Inl (Error (''Storefront API error: '' @ stringify E ''  '' [] (JArr (e # es))))
          \<and> fst (shopifyFetch E cfg fetch query vars)
              = Inl (Error (if truthy_opt E (optProp (Some e) ''message'')
                            then toString_opt E (optProp (Some e) ''message'')
                            else ''Shopify API error'')))"
proof -
  note sq = storefrontQuery_response [OF stripped_nonempty [OF assms(1)] assms(2,3),
      where E = E and query = query and variables = variables]
  note sf = shopifyFetch_response [OF assms(1-3), where E = E and query = query and vars = vars]
  have parse: "fst (storefrontQuery E cfg fetch query variables) = Inl e
          \<and> fst (shopifyFetch E cfg fetch query vars) = Inl (Error ''Invalid response from Shopify'')"
    if "json_body res = Inl e" for e
    using sq sf that by simp
  have http: "fst (storefrontQuery E cfg fetch query variables)
              = Inl (Error (''Storefront API error: ''
                   @ stringify_opt E ''  '' (js_or E (getProp json ''errors'') (Some json))))
          \<and> fst (shopifyFetch E cfg fetch query vars)
              = Inl (Error
                  (if truthy_opt E (optProp (optIndex0 (getProp json ''errors'')) ''message'')
                   then toString_opt E (optProp (optIndex0 (getProp json ''errors'')) ''message'')
                   else ''Shopify API error ('' @ decimal (status res) @ '')''))"
    if "json_body res = Inr json" "json \<noteq> JNull" "\<not> ok res" for json
    using sq sf that by (simp add: readProp_defined optProp_defined)
  have api: "fst (storefrontQuery E cfg fetch query variables)
              = Inl (Error (''Storefront API error: '' @ stringify E ''  '' [] (JArr (e # es))))
          \<and> fst (shopifyFetch E cfg fetch query vars)
              = Inl (Error (if truthy_opt E (optProp (Some e) ''message'')
                            then toString_opt E (optProp (Some e) ''message'')
                            else ''Shopify API error''))"
    if "json_body res = Inr json" "ok res" "getProp json ''errors'' = Some (JArr (e # es))"
    for json e es
  proof -
    from that(3) have "json \<noteq> JNull" by (rule getProp_Some_not_null)
    then show ?thesis
      using sq sf that by (simp add: readProp_defined js_or_def)
  qed
  from parse http api show ?thesis by blast
qed

theorem query_failures_witness:
  "(fst (storefrontQuery sample_engine sample_config (parse_failure 200) ''query { shop { name } }'' None)
      = Inl (SyntaxError ''Unexpected end of JSON input'')
    \<and> fst (shopifyFetch sample_engine sample_config (parse_failure 200) ''query { shop { name } }'' (JObj []))
      = Inl (Error ''Invalid response from Shopify''))
   \<and> (fst (storefrontQuery sample_engine sample_config (sample_response 502 (JObj []))
            ''query { shop { name } }'' None)
      = Inl (Error ''Storefront API error: {}'')
    \<and> fst (shopifyFetch sample_engine sample_config (sample_response 502 (JObj []))
            ''query { shop { name } }'' (JObj []))
      = Inl (Error ''Shopify API error (502)''))
   \<and> (fst (storefrontQuery sample_engine sample_config (sample_response 200 (errors_payload [''X'']))
            ''query { shop { name } }'' None)
      = Inl (Error (''Storefront API error: ''
           @ stringify sample_engine ''  '' [] (JArr [JObj [(''message'', JStr ''X'')]])))
    \<and> fst (shopifyFetch sample_engine sample_config (sample_response 200 (errors_payload [''X'']))
            ''query { shop { name } }'' (JObj []))
      = Inl (Error ''X''))"
  using query_failures [OF sample_config_ok, where E = sample_engine
        and fetch = "parse_failure 200"
        and res = "\<lparr>status = 200, json_body = Inl (SyntaxError ''Unexpected end of JSON input'')\<rparr>"
        and query = "''query { shop { name } }''" and variables = None and vars = "JObj []"]
      query_failures [OF sample_config_ok, where E = sample_engine
        and fetch = "sample_response 502 (JObj [])"
        and res = "\<lparr>status = 502, json_body = Inr (JObj [])\<rparr>"
        and query = "''query { shop { name } }''" and variables = None and vars = "JObj []"]
      query_failures [OF sample_config_ok, where E = sample_engine
        and fetch = "sample_response 200 (errors_payload [''X''])"
        and res = "\<lparr>status = 200, json_body = Inr (errors_payload [''X''])\<rparr>"
        and query = "''query { shop { name } }''" and variables = None and vars = "JObj []"]
  by (simp add: parse_failure_def sample_response_def ok_def errors_payload_def js_or_def
      wrap_def digit_char_def)

text \<open>
  The claim as stated fails. \<open>storefrontQuery\<close> gives the same failure for status 500 and
  for status 200 when the body carries the same errors, so the failure is not distinct
  and does not carry the status. \<open>shopifyFetch\<close> at status 500 carries the first error
  message in place of the status, and at status 200 with two errors it carries the first
  message only, not the serialized list.
\<close>

theorem failures_not_distinct_counterexample:
  "storefrontQuery sample_engine sample_config (sample_response 500 (errors_payload [''X'']))
       ''query { shop { name } }'' None
     = storefrontQuery sample_engine sample_config (sample_response 200 (errors_payload [''X'']))
       ''query { shop { name } }'' None
   \<and> fst (shopifyFetch sample_engine sample_config (sample_response 500 (errors_payload [''X'']))
            ''query { shop { name } }'' (JObj [])) = Inl (Error ''X'')
   \<and> fst (shopifyFetch sample_engine sample_config (sample_response 200 (errors_payload [''X'', ''Y'']))
            ''query { shop { name } }'' (JObj [])) = Inl (Error ''X'')"
  by (simp add: storefrontQuery_def shopifyFetch_def buildEndpoint_def strip_scheme_def
      strip_trailing_slashes_def sample_config_def sample_response_def errors_payload_def
      ok_def js_or_def Let_def)

section \<open>The fetch effect\<close>

lemma step_after_cancel:
  assumes "cancelled s"
  shows "cancelled (step panels s ev) \<and> updates (step panels s ev) = updates s
       \<and> productsByHandle (step panels s ev) = productsByHandle s
       \<and> error (step panels s ev) = error s"
proof (cases ev)
  case (Settle k outcome)
  then show ?thesis using assms by (simp add: Let_def)
next
  case Resume
  then show ?thesis using assms by (cases "batch s") simp_all
next
  case Unmount
  then show ?thesis by simp
qed

lemma run_after_cancel:
  assumes "cancelled s"
  shows "cancelled (run panels evs s) \<and> updates (run panels evs s) = updates s
       \<and> productsByHandle (run panels evs s) = productsByHandle s
       \<and> error (run panels evs s) = error s"
  using assms
proof (induction evs arbitrary: s)
  case Nil
  then show ?case by (simp add: run_def)
next
  case (Cons ev evs)
  from step_after_cancel [OF Cons.prems, of panels ev]
  have c: "cancelled (step panels s ev)"
    and u: "updates (step panels s ev) = updates s"
    and p: "productsByHandle (step panels s ev) = productsByHandle s"
    and e: "error (step panels s ev) = error s"
    by simp_all
  from Cons.IH [OF c] u p e show ?case
    by (simp add: run_def)
qed

lemma run_append: "run panels (xs @ ys) s = run panels ys (run panels xs s)"
  by (simp add: run_def)

lemma run_Cons: "run panels (ev # evs) s = run panels evs (step panels s ev)"
  by (simp add: run_def)

lemma fulfilled_values_Some:
  "fulfilled_values qs = Some vs \<Longrightarrow> Pending \<notin> set qs \<and> (\<forall>e. Rejected e \<notin> set qs)"
proof (induction qs arbitrary: vs)
  case Nil
  then show ?case by simp
next
  case (Cons q qs)
  then show ?case by (cases q) auto
qed

lemma start_effect_inv: "batch_inv products (start_effect panels products err)"
  by (auto simp: batch_inv_def start_effect_def)

lemma set_update_settled:
  assumes "k < length qs" and "qs ! k = Pending"
  shows "Rejected e \<in> set (qs[k := settled outcome])
           \<longleftrightarrow> Rejected e \<in> set qs \<or> outcome = Inl e"
proof -
  have "set (qs[k := settled outcome]) \<subseteq> insert (settled outcome) (set qs)"
    by (rule set_update_subset_insert)
  moreover have "settled outcome \<in> set (qs[k := settled outcome])"
    using assms(1) by (rule set_update_memI)
  moreover have "Rejected e \<in> set qs \<Longrightarrow> Rejected e \<in> set (qs[k := settled outcome])"
  proof -
    assume "Rejected e \<in> set qs"
    then obtain j where j: "j < length qs" "qs ! j = Rejected e" by (auto simp: in_set_conv_nth)
    with assms(2) have "j \<noteq> k" by auto
    with j have "(qs[k := settled outcome]) ! j = Rejected e" by simp
    with j(1) show ?thesis by (metis length_list_update nth_mem)
  qed
  ultimately show ?thesis
    by (cases outcome) auto
qed

lemma pending_in_set: "k < length qs \<Longrightarrow> qs ! k = Pending \<Longrightarrow> Pending \<in> set qs"
  by (metis nth_mem)

lemma settle_inv:
  assumes "batch_inv products s"
  shows "batch_inv products (step panels s (Settle k outcome))"
proof (cases "k < length (queries s) \<and> queries s ! k = Pending")
  case False
  then show ?thesis using assms by auto
next
  case True
  then have k: "k < length (queries s)" and p: "queries s ! k = Pending" by simp_all
  note rej = set_update_settled [OF k p, of _ outcome]
  from k p have pend: "Pending \<in> set (queries s)" by (rule pending_in_set)
  show ?thesis
  proof (cases "batch s")
    case Waiting
    show ?thesis
    proof (cases outcome)
      case (Inl e)
      then show ?thesis
        using assms True Waiting rej [of e]
        by (simp add: batch_inv_def promise_all_def)
    next
      case (Inr v)
      show ?thesis
      proof (cases "fulfilled_values ((queries s)[k := settled outcome])")
        case None
        then show ?thesis
          using assms True Waiting Inr rej
          by (simp add: batch_inv_def promise_all_def)
      next
        case (Some vs)
        from fulfilled_values_Some [OF Some] show ?thesis
          using assms True Waiting Inr Some
          by (simp add: batch_inv_def promise_all_def)
      qed
    qed
  next
    case (Resolved entries)
    then show ?thesis using assms pend by (simp add: batch_inv_def)
  next
    case (Failed e)
    then show ?thesis
      using assms True rej [of e] by (simp add: batch_inv_def)
  next
    case Done
    with assms pend obtain e where "Rejected e \<in> set (queries s)" "productsByHandle s = products"
      "error s = Some (error_text e)" "updates s = [SetError None, SetError (Some (error_text e))]"
      by (auto simp: batch_inv_def)
    then show ?thesis
      using assms True Done rej [of e] by (auto simp: batch_inv_def)
  qed
qed

lemma resume_inv:
  assumes "batch_inv products s"
  shows "batch_inv products (step panels s Resume)"
  using assms by (cases "batch s") (auto simp: batch_inv_def)

lemma run_inv:
  assumes "batch_inv products s" and "Unmount \<notin> set evs"
  shows "batch_inv products (run panels evs s)"
  using assms
proof (induction evs arbitrary: s)
  case Nil
  then show ?case by (simp add: run_def)
next
  case (Cons ev evs)
  from Cons.prems have "batch_inv products (step panels s ev)"
    by (cases ev) (simp_all add: settle_inv resume_inv del: step.simps)
  with Cons show ?case by (simp add: run_Cons)
qed

text \<open>
  C8, as amended. For every batch fetch attempt during which the overlay stays mounted,
  if the query of any panel rejects then the batch fails: once the suspended body has
  resumed, exactly one error message has been recorded (the text of a rejected query,
  after the initial reset of the error), no panel data has been applied, and the
  products-by-handle mapping is the one shown before the effect started.
\<close>

theorem rejected_query_fails_batch:
  assumes "Unmount \<notin> set evs"
    and "Rejected e \<in> set (queries (run panels evs (start_effect panels products err)))"
  shows "productsByHandle (run panels (evs @ [Resume]) (start_effect panels products err)) = products
       \<and> (\<exists>e'. Rejected e' \<in> set (queries (run panels evs (start_effect panels products err)))
             \<and> error (run panels (evs @ [Resume]) (start_effect panels products err))
                 = Some (error_text e')
             \<and> error_text e' \<noteq> []
             \<and> updates (run panels (evs @ [Resume]) (start_effect panels products err))
                 = [SetError None, SetError (Some (error_text e'))])"
proof -
  define s where "s = run panels evs (start_effect panels products err)"
  have inv: "batch_inv products s"
    unfolding s_def using start_effect_inv assms(1) by (rule run_inv)
  have r: "run panels (evs @ [Resume]) (start_effect panels products err) = step panels s Resume"
    by (simp add: run_append s_def run_def)
  have nonempty: "error_text e' \<noteq> []" for e'
    by (simp add: error_text_def)
  from assms(2) have rej: "Rejected e \<in> set (queries s)" by (simp add: s_def)
  have "productsByHandle (step panels s Resume) = products
       \<and> (\<exists>e'. Rejected e' \<in> set (queries s)
             \<and> error (step panels s Resume) = Some (error_text e')
             \<and> updates (step panels s Resume) = [SetError None, SetError (Some (error_text e'))])"
  proof (cases "batch s")
    case Waiting
    with inv rej show ?thesis by (simp add: batch_inv_def)
  next
    case (Resolved entries)
    with inv rej show ?thesis by (simp add: batch_inv_def)
  next
    case (Failed e')
    with inv show ?thesis by (auto simp: batch_inv_def)
  next
    case Done
    with inv rej show ?thesis by (auto simp: batch_inv_def)
  qed
  then show ?thesis
    unfolding r s_def [symmetric] using nonempty by blast
qed

theorem rejected_query_fails_batch_witness:
  "productsByHandle (run PANELS (sample_settlements @ [Resume]) (start_effect PANELS Map.empty None))
     = Map.empty
   \<and> error (run PANELS (sample_settlements @ [Resume]) (start_effect PANELS Map.empty None))
     = Some ''Storefront API error: {}''
   \<and> updates (run PANELS (sample_settlements @ [Resume]) (start_effect PANELS Map.empty None))
     = [SetError None, SetError (Some ''Storefront API error: {}'')]"
proof -
  have q: "queries (run PANELS sample_settlements (start_effect PANELS Map.empty None))
           = [Rejected (Error ''Storefront API error: {}''), Fulfilled []]"
    by (simp add: sample_settlements_def run_def start_effect_def PANELS_def Let_def promise_all_def)
  have u: "Unmount \<notin> set sample_settlements"
    by (simp add: sample_settlements_def)
  have rej: "Rejected (Error ''Storefront API error: {}'')
               \<in> set (queries (run PANELS sample_settlements (start_effect PANELS Map.empty None)))"
    unfolding q by simp
  from rejected_query_fails_batch [OF u rej]
  obtain e' where e': "Rejected e'
        \<in> set (queries (run PANELS sample_settlements (start_effect PANELS Map.empty None)))"
    and r: "productsByHandle (run PANELS (sample_settlements @ [Resume])
              (start_effect PANELS Map.empty None)) = Map.empty"
      "error (run PANELS (sample_settlements @ [Resume])
              (start_effect PANELS Map.empty None)) = Some (error_text e')"
      "updates (run PANELS (sample_settlements @ [Resume])
              (start_effect PANELS Map.empty None)) = [SetError None, SetError (Some (error_text e'))]"
    by auto
  from e' have "e' = Error ''Storefront API error: {}''"
    unfolding q by simp
  then have "error_text e' = ''Storefront API error: {}''"
    by (simp add: error_text_def)
  with r show ?thesis by simp
qed

text \<open>
  The claim as stated, for every batch fetch attempt, fails when the overlay is unmounted
  before the rejection is handled: the guard on \<^verbatim>\<open>cancelled\<close> skips \<^verbatim>\<open>setError\<close>, and no
  error message is recorded.
\<close>

theorem unmounted_rejection_counterexample:
  "error (run PANELS [Unmount, Settle 0 (Inl (Error ''Storefront API error: {}'')), Resume]
            (start_effect PANELS Map.empty None :: real Overlay)) = None
   \<and> updates (run PANELS [Unmount, Settle 0 (Inl (Error ''Storefront API error: {}'')), Resume]
            (start_effect PANELS Map.empty None :: real Overlay)) = [SetError None]"
  by (simp add: run_def start_effect_def PANELS_def Let_def promise_all_def)

text \<open>
  C9. Once the component is unmounted, no state update is applied, whatever happens
  afterwards and whatever happened before: the log of setter calls, the products-by-handle
  mapping and the error message stay as they were at the unmount. The cleanup is a step of
  the total function \<open>step\<close>, which has no error result.
\<close>

theorem no_update_after_unmount:
  "updates (run panels (before @ Unmount # after) (start_effect panels products err))
     = updates (run panels before (start_effect panels products err))
   \<and> productsByHandle (run panels (before @ Unmount # after) (start_effect panels products err))
     = productsByHandle (run panels before (start_effect panels products err))
   \<and> error (run panels (before @ Unmount # after) (start_effect panels products err))
     = error (run panels before (start_effect panels products err))"
proof -
  define s where "s = run panels before (start_effect panels products err)"
  have "cancelled (step panels s Unmount)" by simp
  from run_after_cancel [OF this, of panels after]
  show ?thesis
    unfolding run_append run_Cons s_def [symmetric] by simp
qed


end
